theory Spec2Isabelle
  imports Main "HOL-Library.Sublist"
begin

section \<open>VPN failover monitor of the USB VPN router\<close>

text \<open>
  This theory embeds \<^verbatim>\<open>usb_vpn_router/monitor.py\<close> (class \<^verbatim>\<open>VPNMonitor\<close>), the helpers
  \<^verbatim>\<open>run_command\<close> and \<^verbatim>\<open>check_interface_exists\<close> of \<^verbatim>\<open>usb_vpn_router/utils.py\<close>, and
  \<^verbatim>\<open>RouterConfig\<close> of \<^verbatim>\<open>usb_vpn_router/config.py\<close>.

  The monitor acts on the operating system only through \<^verbatim>\<open>run_command\<close>. Python
  exceptions are values of a sum type, the operating system is an explicit state, and
  every function of the monitor passes a \<open>world\<close> along: the routing state, a journal
  of the commands run so far and the log lines printed so far.
\<close>

subsection \<open>Strings\<close>

text \<open>Python's \<^verbatim>\<open>pat in text\<close> on strings: \<open>pat\<close> occurs as a contiguous substring.\<close>

fun str_in :: "string \<Rightarrow> string \<Rightarrow> bool" where
  "str_in pat [] = (pat = [])"
| "str_in pat (c # cs) = (prefix pat (c # cs) \<or> str_in pat cs)"

definition newline :: char where
  "newline = CHR 0x0A"

definition is_digit :: "char \<Rightarrow> bool" where
  "is_digit c = (c \<in> set ''0123456789'')"

text \<open>
  \<^verbatim>\<open>re.search(r'^100\.[\d\.]+', text, re.MULTILINE)\<close>: the first position at the start
  of the text or right after a newline where \<^verbatim>\<open>100.\<close> is followed by at least one digit
  or dot; the match is \<^verbatim>\<open>100.\<close> with the longest such run. (\<^verbatim>\<open>\d\<close> is taken as the
  ASCII digits.)
\<close>

definition gateway_at :: "string \<Rightarrow> string option" where
  "gateway_at s =
     (if prefix ''100.'' s then
        (let run = takeWhile (\<lambda>c. is_digit c \<or> c = CHR ''.'') (drop 4 s)
         in if run = [] then None else Some (''100.'' @ run))
      else None)"

fun gateway_search :: "bool \<Rightarrow> string \<Rightarrow> string option" where
  "gateway_search bol [] = None"
| "gateway_search bol (c # cs) =
     (if bol then
        (case gateway_at (c # cs) of
           Some g \<Rightarrow> Some g
         | None \<Rightarrow> gateway_search (c = newline) cs)
      else gateway_search (c = newline) cs)"

definition gateway_match :: "string \<Rightarrow> string option" where
  "gateway_match text = gateway_search True text"

text \<open>Python's \<^verbatim>\<open>str(n)\<close> on an integer and \<^verbatim>\<open>' '.join(words)\<close>.\<close>

fun show_nat :: "nat \<Rightarrow> string" where
  "show_nat n =
     (if n < 10 then [''0123456789'' ! n]
      else show_nat (n div 10) @ [''0123456789'' ! (n mod 10)])"

definition show_int :: "int \<Rightarrow> string" where
  "show_int i = (if i < 0 then CHR ''-'' # show_nat (nat (- i)) else show_nat (nat i))"

fun join_words :: "string list \<Rightarrow> string" where
  "join_words [] = []"
| "join_words [x] = x"
| "join_words (x # y # ys) = x @ '' '' @ join_words (y # ys)"

subsection \<open>Commands and the operating system\<close>

text \<open>
  The commands the monitor runs, one constructor per argument list of the source:
  \<^item> \<open>IpLinkShow i\<close>: \<^verbatim>\<open>ip link show i\<close>
  \<^item> \<open>IpAddrShow i\<close>: \<^verbatim>\<open>ip addr show i\<close>
  \<^item> \<open>Ping i t h\<close>: \<^verbatim>\<open>ping -I i -c 1 -W t h\<close>
  \<^item> \<open>IpRouteShowTable\<close>: \<^verbatim>\<open>ip route show table usb_vpn\<close>
  \<^item> \<open>IpRouteDelDefault\<close>: \<^verbatim>\<open>ip route del default table usb_vpn\<close>
  \<^item> \<open>IpRouteShowDev i\<close>: \<^verbatim>\<open>ip route show dev i\<close>
  \<^item> \<open>IpRouteAddDefault g i\<close>: \<^verbatim>\<open>ip route add default [via g] dev i table usb_vpn\<close>
  \<^item> \<open>IptablesD i n\<close>, \<open>IptablesC i n\<close>, \<open>IptablesA i n\<close>:
    \<^verbatim>\<open>iptables -t nat -D|-C|-A POSTROUTING -o i -s n -j MASQUERADE\<close>
\<close>

datatype cmd =
    IpLinkShow string
  | IpAddrShow string
  | Ping string int string
  | IpRouteShowTable
  | IpRouteDelDefault
  | IpRouteShowDev string
  | IpRouteAddDefault "string option" string
  | IptablesD string string
  | IptablesC string string
  | IptablesA string string

fun argv :: "cmd \<Rightarrow> string list" where
  "argv (IpLinkShow i) = [''ip'', ''link'', ''show'', i]"
| "argv (IpAddrShow i) = [''ip'', ''addr'', ''show'', i]"
| "argv (Ping i t h) = [''ping'', ''-I'', i, ''-c'', ''1'', ''-W'', show_int t, h]"
| "argv IpRouteShowTable = [''ip'', ''route'', ''show'', ''table'', ''usb_vpn'']"
| "argv IpRouteDelDefault = [''ip'', ''route'', ''del'', ''default'', ''table'', ''usb_vpn'']"
| "argv (IpRouteShowDev i) = [''ip'', ''route'', ''show'', ''dev'', i]"
| "argv (IpRouteAddDefault (Some g) i) =
     [''ip'', ''route'', ''add'', ''default'', ''via'', g, ''dev'', i, ''table'', ''usb_vpn'']"
| "argv (IpRouteAddDefault None i) =
     [''ip'', ''route'', ''add'', ''default'', ''dev'', i, ''table'', ''usb_vpn'']"
| "argv (IptablesD i n) =
     [''iptables'', ''-t'', ''nat'', ''-D'', ''POSTROUTING'', ''-o'', i, ''-s'', n,
      ''-j'', ''MASQUERADE'']"
| "argv (IptablesC i n) =
     [''iptables'', ''-t'', ''nat'', ''-C'', ''POSTROUTING'', ''-o'', i, ''-s'', n,
      ''-j'', ''MASQUERADE'']"
| "argv (IptablesA i n) =
     [''iptables'', ''-t'', ''nat'', ''-A'', ''POSTROUTING'', ''-o'', i, ''-s'', n,
      ''-j'', ''MASQUERADE'']"

text \<open>
  The routing state the monitor reads and rewrites: the entries of the policy table
  \<^verbatim>\<open>usb_vpn\<close> in listing order, and the masquerade rules of the \<^verbatim>\<open>POSTROUTING\<close> chain
  in chain order, each as (output interface, source network). A chain may hold the same
  rule more than once.
\<close>

datatype route = Route (dest: string) (via: "string option") (dev: string)

record routing_state =
  table_usb_vpn :: "route list"
  nat_postrouting :: "(string \<times> string) list"

text \<open>
  What the monitor does not change within one cycle: which commands cannot be run at
  all, whether the table name is known, which interfaces exist, what \<^verbatim>\<open>ip addr show\<close>
  and \<^verbatim>\<open>ip route show dev\<close> print, and which interface reaches which host; and the
  longest sleep, in seconds, that the platform accepts at that moment (CPython adds the
  length to the monotonic clock, and the sum has to fit the clock's range).
\<close>

record env =
  unavailable :: "cmd \<Rightarrow> bool"
  table_defined :: bool
  link_exists :: "string \<Rightarrow> bool"
  addr_listing :: "string \<Rightarrow> string"
  dev_routes :: "string \<Rightarrow> string"
  ping_replies :: "string \<Rightarrow> string \<Rightarrow> bool"
  sleep_limit :: int

datatype outcome = Raised | Completed int string

definition is_default :: "route \<Rightarrow> bool" where
  "is_default r = (dest r = ''default'')"

fun del_first :: "('a \<Rightarrow> bool) \<Rightarrow> 'a list \<Rightarrow> 'a list" where
  "del_first P [] = []"
| "del_first P (x # xs) = (if P x then xs else x # del_first P xs)"

definition render_route :: "route \<Rightarrow> string" where
  "render_route r =
     dest r @ (case via r of Some g \<Rightarrow> '' via '' @ g | None \<Rightarrow> []) @
     '' dev '' @ dev r @ '' '' @ [newline]"

definition render_table :: "route list \<Rightarrow> string" where
  "render_table t = concat (map render_route t)"

text \<open>
  The effect of one command on the routing state, and its exit status and output. This
  is the behaviour of \<^verbatim>\<open>ip\<close> and \<^verbatim>\<open>iptables\<close>, which are not part of the repository:
  deleting removes the first matching entry and fails when there is none, adding a
  default route fails when the table has one, \<^verbatim>\<open>-C\<close> reports whether the rule is there,
  \<^verbatim>\<open>-A\<close> appends whether or not it is there, and a command on an unknown table or a
  missing interface fails without any effect.
\<close>

fun os_exec :: "env \<Rightarrow> cmd \<Rightarrow> routing_state \<Rightarrow> outcome \<times> routing_state" where
  "os_exec e (IpLinkShow i) s = (Completed (if link_exists e i then 0 else 1) [], s)"
| "os_exec e (IpAddrShow i) s =
     (if link_exists e i then (Completed 0 (addr_listing e i), s) else (Completed 1 [], s))"
| "os_exec e (Ping i t h) s =
     (Completed (if link_exists e i \<and> ping_replies e i h then 0 else 1) [], s)"
| "os_exec e IpRouteShowTable s =
     (if table_defined e then (Completed 0 (render_table (table_usb_vpn s)), s)
      else (Completed 255 [], s))"
| "os_exec e IpRouteDelDefault s =
     (if \<not> table_defined e then (Completed 255 [], s)
      else if \<exists>r \<in> set (table_usb_vpn s). is_default r
      then (Completed 0 [], s\<lparr>table_usb_vpn := del_first is_default (table_usb_vpn s)\<rparr>)
      else (Completed 2 [], s))"
| "os_exec e (IpRouteShowDev i) s =
     (if link_exists e i then (Completed 0 (dev_routes e i), s) else (Completed 1 [], s))"
| "os_exec e (IpRouteAddDefault g i) s =
     (if \<not> table_defined e then (Completed 255 [], s)
      else if \<not> link_exists e i then (Completed 1 [], s)
      else if \<exists>r \<in> set (table_usb_vpn s). is_default r then (Completed 2 [], s)
      else (Completed 0 [], s\<lparr>table_usb_vpn := table_usb_vpn s @ [Route ''default'' g i]\<rparr>))"
| "os_exec e (IptablesD i n) s =
     (if (i, n) \<in> set (nat_postrouting s)
      then (Completed 0 [], s\<lparr>nat_postrouting := remove1 (i, n) (nat_postrouting s)\<rparr>)
      else (Completed 1 [], s))"
| "os_exec e (IptablesC i n) s =
     (Completed (if (i, n) \<in> set (nat_postrouting s) then 0 else 1) [], s)"
| "os_exec e (IptablesA i n) s =
     (Completed 0 [], s\<lparr>nat_postrouting := nat_postrouting s @ [(i, n)]\<rparr>)"

definition os_run :: "env \<Rightarrow> cmd \<Rightarrow> routing_state \<Rightarrow> outcome \<times> routing_state" where
  "os_run e c s = (if unavailable e c then (Raised, s) else os_exec e c s)"

subsection \<open>Exceptions, logging and \<^verbatim>\<open>run_command\<close>\<close>

text \<open>
  \<open>CalledProcessError\<close>, \<open>OSError\<close>, \<open>ValueError\<close> and \<open>OverflowError\<close> are subclasses of
  \<^verbatim>\<open>Exception\<close>; \<open>KeyboardInterrupt\<close> is not, so \<^verbatim>\<open>except Exception\<close> lets it through.
\<close>

datatype exn =
  CalledProcessError int | OSError | ValueError string | OverflowError | KeyboardInterrupt

fun is_Exception :: "exn \<Rightarrow> bool" where
  "is_Exception KeyboardInterrupt = False"
| "is_Exception _ = True"

fun exn_text :: "exn \<Rightarrow> string" where
  "exn_text (CalledProcessError rc) = ''Command returned non-zero exit status''"
| "exn_text OSError = ''OSError''"
| "exn_text (ValueError m) = m"
| "exn_text OverflowError = ''timestamp too large to convert to C _PyTime_t''"
| "exn_text KeyboardInterrupt = []"

datatype level = Debug | Info | Warn | Error

record world =
  rstate :: routing_state
  journal :: "(cmd \<times> routing_state) list"
  logs :: "(level \<times> string) list"

text \<open>
  \<^verbatim>\<open>log_debug\<close>, \<^verbatim>\<open>log_info\<close>, \<^verbatim>\<open>log_warn\<close> and \<^verbatim>\<open>log_error\<close> of \<^verbatim>\<open>utils.py\<close> print one
  line at their level. \<^verbatim>\<open>_log_with_timestamp(level, message)\<close> of the monitor prints
  the message at the level; the time stamp in front of it is left out.
\<close>

definition log_line :: "level \<Rightarrow> string \<Rightarrow> world \<Rightarrow> world" where
  "log_line l m w = w\<lparr>logs := logs w @ [(l, m)]\<rparr>"

definition log_with_timestamp :: "level \<Rightarrow> string \<Rightarrow> world \<Rightarrow> world" where
  "log_with_timestamp l m w = log_line l m w"

text \<open>
  \<^verbatim>\<open>run_command(cmd, check=...)\<close> of \<^verbatim>\<open>utils.py\<close>, always called without a timeout. It
  prints a debug line, then \<^verbatim>\<open>subprocess.run\<close> raises when the command cannot be run,
  and \<^verbatim>\<open>CalledProcessError\<close> when \<^verbatim>\<open>check\<close> is set and the exit status is not zero; that
  one is reported by \<^verbatim>\<open>log_error\<close> (command, exit code, captured output when there is
  some; the error stream is not modelled) and raised again. The journal records the
  command and the routing state after it.
\<close>

definition run_command :: "env \<Rightarrow> cmd \<Rightarrow> bool \<Rightarrow> world \<Rightarrow> (exn + int \<times> string) \<times> world" where
  "run_command e c check w =
     (let w0 = log_line Debug (''Running command: '' @ join_words (argv c)) w in
      case os_run e c (rstate w0) of
        (Raised, s') \<Rightarrow>
          (Inl OSError, w0\<lparr>rstate := s', journal := journal w0 @ [(c, s')]\<rparr>)
      | (Completed rc out, s') \<Rightarrow>
          (let w1 = w0\<lparr>rstate := s', journal := journal w0 @ [(c, s')]\<rparr> in
           if check \<and> rc \<noteq> 0 then
             (let w2 = log_line Error (''Command failed: '' @ join_words (argv c)) w1;
                  w3 = log_line Error (''Exit code: '' @ show_int rc) w2;
                  w4 = (if out \<noteq> [] then log_line Error (''Stdout: '' @ out) w3 else w3)
              in (Inl (CalledProcessError rc), w4))
           else (Inr (rc, out), w1)))"

text \<open>The commands run between two worlds, read off the journal.\<close>

definition issued :: "world \<Rightarrow> world \<Rightarrow> cmd list" where
  "issued w w' = map fst (drop (length (journal w)) (journal w'))"

subsection \<open>The monitor\<close>

record monitor =
  check_interval :: int
  ping_timeout :: int
  test_host :: string
  running :: bool
  usb_network :: string
  tailscale_interface :: string
  openvpn_interface :: string

definition VPNMonitor_init :: "int \<Rightarrow> int \<Rightarrow> string \<Rightarrow> monitor" where
  "VPNMonitor_init ci pt th =
     \<lparr>check_interval = ci, ping_timeout = pt, test_host = th, running = False,
      usb_network = ''192.168.64.0/24'', tailscale_interface = ''tailscale0'',
      openvpn_interface = ''tun0''\<rparr>"

datatype vpn = Tailscale | Openvpn | NoVpn

text \<open>\<^verbatim>\<open>check_interface_exists\<close> of \<^verbatim>\<open>utils.py\<close>.\<close>

definition check_interface_exists :: "env \<Rightarrow> string \<Rightarrow> world \<Rightarrow> (exn + bool) \<times> world" where
  "check_interface_exists e i w =
     (case run_command e (IpLinkShow i) False w of
        (Inl x, w1) \<Rightarrow> (if is_Exception x then Inr False else Inl x, w1)
      | (Inr (rc, out), w1) \<Rightarrow> (Inr (rc = 0), w1))"

definition check_interface_connectivity ::
  "env \<Rightarrow> monitor \<Rightarrow> string \<Rightarrow> world \<Rightarrow> (exn + bool) \<times> world" where
  "check_interface_connectivity e self i w =
     (case check_interface_exists e i w of
        (Inl x, w1) \<Rightarrow> (Inl x, w1)
      | (Inr False, w1) \<Rightarrow> (Inr False, w1)
      | (Inr True, w1) \<Rightarrow>
          (case run_command e (IpAddrShow i) True w1 of
             (Inl x, w2) \<Rightarrow> (if is_Exception x then Inr False else Inl x, w2)
           | (Inr (rc, out), w2) \<Rightarrow>
               (if \<not> str_in ''inet '' out then (Inr False, w2)
                else
                  (case run_command e (Ping i (ping_timeout self) (test_host self)) False w2 of
                     (Inl x, w3) \<Rightarrow> (if is_Exception x then Inr False else Inl x, w3)
                   | (Inr (rc', out'), w3) \<Rightarrow> (Inr (rc' = 0), w3)))))"

text \<open>
  The part of \<^verbatim>\<open>get_current_vpn\<close> that reads the completed command: exit status zero,
  output not empty, then the Tailscale interface name is looked for before the OpenVPN
  one.
\<close>

definition vpn_of_listing :: "monitor \<Rightarrow> int \<Rightarrow> string \<Rightarrow> vpn" where
  "vpn_of_listing self rc out =
     (if rc = 0 \<and> out \<noteq> [] then
        (if str_in (tailscale_interface self) out then Tailscale
         else if str_in (openvpn_interface self) out then Openvpn
         else NoVpn)
      else NoVpn)"

definition get_current_vpn :: "env \<Rightarrow> monitor \<Rightarrow> world \<Rightarrow> (exn + vpn) \<times> world" where
  "get_current_vpn e self w =
     (case run_command e IpRouteShowTable False w of
        (Inl x, w1) \<Rightarrow> (if is_Exception x then Inr NoVpn else Inl x, w1)
      | (Inr (rc, out), w1) \<Rightarrow> (Inr (vpn_of_listing self rc out), w1))"

text \<open>
  Lines 119 to 124 and 149 to 154 of \<^verbatim>\<open>monitor.py\<close>: check the rule, and append it
  when the check raises \<^verbatim>\<open>CalledProcessError\<close>; any other exception goes on.
\<close>

definition ensure_nat_rule :: "env \<Rightarrow> string \<Rightarrow> string \<Rightarrow> world \<Rightarrow> (exn + unit) \<times> world" where
  "ensure_nat_rule e i n w =
     (case run_command e (IptablesC i n) True w of
        (Inl (CalledProcessError rc), w1) \<Rightarrow>
          (case run_command e (IptablesA i n) True w1 of
             (Inl x, w2) \<Rightarrow> (Inl x, w2)
           | (Inr r, w2) \<Rightarrow> (Inr (), w2))
      | (Inl x, w1) \<Rightarrow> (Inl x, w1)
      | (Inr r, w1) \<Rightarrow> (Inr (), w1))"

text \<open>The \<^verbatim>\<open>try\<close> block of \<^verbatim>\<open>switch_to_tailscale\<close>, up to the first exception.\<close>

definition switch_to_tailscale_try :: "env \<Rightarrow> monitor \<Rightarrow> world \<Rightarrow> (exn + unit) \<times> world" where
  "switch_to_tailscale_try e self w =
     (case run_command e IpRouteDelDefault False w of
        (Inl x, w1) \<Rightarrow> (Inl x, w1)
      | (Inr r1, w1) \<Rightarrow>
     (case run_command e (IpRouteShowDev (tailscale_interface self)) True w1 of
        (Inl x, w2) \<Rightarrow> (Inl x, w2)
      | (Inr (rc, out), w2) \<Rightarrow>
     (case (case gateway_match out of
              Some gateway \<Rightarrow>
                run_command e (IpRouteAddDefault (Some gateway) (tailscale_interface self)) True w2
            | None \<Rightarrow>
                run_command e (IpRouteAddDefault None (tailscale_interface self)) True w2) of
        (Inl x, w3) \<Rightarrow> (Inl x, w3)
      | (Inr r3, w3) \<Rightarrow>
     (case run_command e (IptablesD (openvpn_interface self) (usb_network self)) False w3 of
        (Inl x, w4) \<Rightarrow> (Inl x, w4)
      | (Inr r4, w4) \<Rightarrow>
          ensure_nat_rule e (tailscale_interface self) (usb_network self) w4))))"

definition switch_to_tailscale :: "env \<Rightarrow> monitor \<Rightarrow> world \<Rightarrow> (exn + bool) \<times> world" where
  "switch_to_tailscale e self w =
     (case switch_to_tailscale_try e self
             (log_with_timestamp Info ''Switching USB routing to Tailscale...'' w) of
        (Inl x, w1) \<Rightarrow>
          (if is_Exception x
           then (Inr False,
                 log_with_timestamp Error (''Failed to switch to Tailscale: '' @ exn_text x) w1)
           else (Inl x, w1))
      | (Inr u, w1) \<Rightarrow>
          (Inr True, log_with_timestamp Info ''Switched to Tailscale successfully'' w1))"

text \<open>The \<^verbatim>\<open>try\<close> block of \<^verbatim>\<open>switch_to_openvpn\<close>, up to the first exception.\<close>

definition switch_to_openvpn_try :: "env \<Rightarrow> monitor \<Rightarrow> world \<Rightarrow> (exn + unit) \<times> world" where
  "switch_to_openvpn_try e self w =
     (case run_command e IpRouteDelDefault False w of
        (Inl x, w1) \<Rightarrow> (Inl x, w1)
      | (Inr r1, w1) \<Rightarrow>
     (case run_command e (IpRouteAddDefault None (openvpn_interface self)) True w1 of
        (Inl x, w2) \<Rightarrow> (Inl x, w2)
      | (Inr r2, w2) \<Rightarrow>
     (case run_command e (IptablesD (tailscale_interface self) (usb_network self)) False w2 of
        (Inl x, w3) \<Rightarrow> (Inl x, w3)
      | (Inr r3, w3) \<Rightarrow>
          ensure_nat_rule e (openvpn_interface self) (usb_network self) w3)))"

definition switch_to_openvpn :: "env \<Rightarrow> monitor \<Rightarrow> world \<Rightarrow> (exn + bool) \<times> world" where
  "switch_to_openvpn e self w =
     (case switch_to_openvpn_try e self
             (log_with_timestamp Info ''Switching USB routing to OpenVPN...'' w) of
        (Inl x, w1) \<Rightarrow>
          (if is_Exception x
           then (Inr False,
                 log_with_timestamp Error (''Failed to switch to OpenVPN: '' @ exn_text x) w1)
           else (Inl x, w1))
      | (Inr u, w1) \<Rightarrow>
          (Inr True, log_with_timestamp Info ''Switched to OpenVPN successfully'' w1))"

subsection \<open>The monitoring loop\<close>

text \<open>
  \<^verbatim>\<open>time.sleep(seconds)\<close> on an integer, as \<^verbatim>\<open>click\<close> delivers \<^verbatim>\<open>--check-interval\<close>. It raises
  \<^verbatim>\<open>ValueError\<close> on a negative length, \<^verbatim>\<open>OverflowError\<close> on a length that does not fit a
  signed 64-bit count of nanoseconds (more than 9223372036 seconds), and \<^verbatim>\<open>OSError\<close> on
  a length beyond what the platform accepts at that moment.
\<close>

definition sleep :: "env \<Rightarrow> int \<Rightarrow> exn + unit" where
  "sleep e t =
     (if t < 0 then Inl (ValueError ''sleep length must be non-negative'')
      else if 9223372036 < t then Inl OverflowError
      else if sleep_limit e < t then Inl OSError
      else Inr ())"

text \<open>
  The failover logic of \<^verbatim>\<open>monitor_loop\<close> (lines 175 to 195), with the three values the
  cycle has read. The result of a switch is not looked at.
\<close>

definition failover_logic ::
  "env \<Rightarrow> monitor \<Rightarrow> vpn \<Rightarrow> bool \<Rightarrow> bool \<Rightarrow> world \<Rightarrow> (exn + unit) \<times> world" where
  "failover_logic e self current_vpn tailscale_up openvpn_up w =
     (if current_vpn = Tailscale then
        (if \<not> tailscale_up \<and> openvpn_up then
           (case switch_to_openvpn e self
                   (log_with_timestamp Warn ''Tailscale down, failing over to OpenVPN'' w) of
              (Inl x, w1) \<Rightarrow> (Inl x, w1)
            | (Inr b, w1) \<Rightarrow> (Inr (), w1))
         else (Inr (), w))
      else if current_vpn = Openvpn then
        (if tailscale_up then
           (case switch_to_tailscale e self
                   (log_with_timestamp Info
                      ''Tailscale is back up, switching back from OpenVPN'' w) of
              (Inl x, w1) \<Rightarrow> (Inl x, w1)
            | (Inr b, w1) \<Rightarrow> (Inr (), w1))
         else if \<not> openvpn_up then
           (Inr (),
            log_with_timestamp Error
              ''WARNING: OpenVPN is down and Tailscale unavailable!'' w)
         else (Inr (), w))
      else if current_vpn = NoVpn then
        (if tailscale_up then
           (case switch_to_tailscale e self
                   (log_with_timestamp Info ''Tailscale available, enabling VPN routing'' w) of
              (Inl x, w1) \<Rightarrow> (Inl x, w1)
            | (Inr b, w1) \<Rightarrow> (Inr (), w1))
         else if openvpn_up then
           (case switch_to_openvpn e self
                   (log_with_timestamp Info ''OpenVPN available, enabling VPN routing'' w) of
              (Inl x, w1) \<Rightarrow> (Inl x, w1)
            | (Inr b, w1) \<Rightarrow> (Inr (), w1))
         else
           (Inr (), log_with_timestamp Warn ''WARNING: No VPN connections available!'' w))
      else (Inr (), w))"

text \<open>The \<^verbatim>\<open>try\<close> block of one iteration of the loop (lines 170 to 198).\<close>

definition cycle_try :: "env \<Rightarrow> monitor \<Rightarrow> world \<Rightarrow> (exn + unit) \<times> world" where
  "cycle_try e self w =
     (case get_current_vpn e self w of
        (Inl x, w1) \<Rightarrow> (Inl x, w1)
      | (Inr current_vpn, w1) \<Rightarrow>
     (case check_interface_connectivity e self (tailscale_interface self) w1 of
        (Inl x, w2) \<Rightarrow> (Inl x, w2)
      | (Inr tailscale_up, w2) \<Rightarrow>
     (case check_interface_connectivity e self (openvpn_interface self) w2 of
        (Inl x, w3) \<Rightarrow> (Inl x, w3)
      | (Inr openvpn_up, w3) \<Rightarrow>
     (case failover_logic e self current_vpn tailscale_up openvpn_up w3 of
        (Inl x, w4) \<Rightarrow> (Inl x, w4)
      | (Inr u, w4) \<Rightarrow> (sleep e (check_interval self), w4)))))"

text \<open>
  One iteration with its handlers: \<^verbatim>\<open>KeyboardInterrupt\<close> leaves the loop, any other
  exception is logged and followed by a sleep outside the \<^verbatim>\<open>try\<close> block, whose own
  exception is not caught.
\<close>

datatype step = Continue | Break | Propagate exn

definition iteration :: "env \<Rightarrow> monitor \<Rightarrow> world \<Rightarrow> step \<times> world" where
  "iteration e self w =
     (case cycle_try e self w of
        (Inr u, w1) \<Rightarrow> (Continue, w1)
      | (Inl KeyboardInterrupt, w1) \<Rightarrow> (Break, w1)
      | (Inl x, w1) \<Rightarrow>
          (let w2 = log_with_timestamp Error (''Monitor error: '' @ exn_text x) w1 in
           case sleep e (check_interval self) of
             Inl y \<Rightarrow> (Propagate y, w2)
           | Inr u \<Rightarrow> (Continue, w2)))"

text \<open>
  What happens around one iteration and is not the monitor's doing: the environment of
  the iteration, the routing state an outside actor may have put in place before it,
  and the number of a termination signal that arrives during it. The handler
  \<^verbatim>\<open>_signal_handler\<close> logs the signal and clears \<^verbatim>\<open>running\<close>; the loop sees that at its
  next test.
\<close>

record event =
  ev_env :: env
  ev_outside :: "routing_state option"
  ev_signal :: "int option"

definition signal_handler :: "int \<Rightarrow> monitor \<times> world \<Rightarrow> monitor \<times> world" where
  "signal_handler signum mw =
     (case mw of (self, w) \<Rightarrow>
        (self\<lparr>running := False\<rparr>,
         log_line Info (''Received signal '' @ show_int signum @ '', shutting down...'') w))"

definition outside_change :: "routing_state option \<Rightarrow> world \<Rightarrow> world" where
  "outside_change c w = (case c of None \<Rightarrow> w | Some s \<Rightarrow> w\<lparr>rstate := s\<rparr>)"

text \<open>
  The \<^verbatim>\<open>while self.running\<close> loop over a finite run of events. The loop has no other
  exit than the ones below, so a run that is still going when the events end is
  \<open>Pending\<close>.
\<close>

datatype ending = Stopped | Interrupted | Crashed exn | Pending

fun while_running :: "monitor \<Rightarrow> event list \<Rightarrow> world \<Rightarrow> ending \<times> monitor \<times> world" where
  "while_running self [] w = (if running self then Pending else Stopped, self, w)"
| "while_running self (ev # evs) w =
     (if \<not> running self then (Stopped, self, w)
      else
        (case iteration (ev_env ev) self (outside_change (ev_outside ev) w) of
           (Continue, w1) \<Rightarrow>
             (case ev_signal ev of
                None \<Rightarrow> while_running self evs w1
              | Some signum \<Rightarrow>
                  (case signal_handler signum (self, w1) of
                     (self1, w2) \<Rightarrow> while_running self1 evs w2))
         | (Break, w1) \<Rightarrow> (Interrupted, self, w1)
         | (Propagate x, w1) \<Rightarrow> (Crashed x, self, w1)))"

definition monitor_loop :: "monitor \<Rightarrow> event list \<Rightarrow> world \<Rightarrow> ending \<times> monitor \<times> world" where
  "monitor_loop self evs w =
     (case while_running (self\<lparr>running := True\<rparr>) evs
             (log_with_timestamp Info ''VPN failover monitor started'' w) of
        (Crashed x, self1, w1) \<Rightarrow> (Crashed x, self1, w1)
      | (Pending, self1, w1) \<Rightarrow> (Pending, self1, w1)
      | (r, self1, w1) \<Rightarrow>
          (r, self1, log_with_timestamp Info ''VPN failover monitor stopped'' w1))"

subsection \<open>The router configuration\<close>

text \<open>
  \<^verbatim>\<open>RouterConfig\<close> of \<^verbatim>\<open>config.py\<close>, a dataclass that is not frozen. Its fields carry the
  prefix \<open>cfg_\<close> here, since three of them share their names with fields of the
  monitor.
\<close>

record router_config =
  cfg_usb_network :: string
  cfg_usb_ip :: string
  cfg_usb_dhcp_start :: string
  cfg_usb_dhcp_end :: string
  cfg_wan_interface :: string
  cfg_usb_interface :: string
  cfg_tailscale_interface :: string
  cfg_openvpn_interface :: string
  cfg_use_tailscale_exit :: bool
  cfg_enable_vpn_failover :: bool
  cfg_dashboard_enabled :: bool
  cfg_dashboard_port :: int
  cfg_dashboard_host :: string

text \<open>
  The standard module \<^verbatim>\<open>ipaddress\<close> is a parameter of the validation:
  \<open>IPv4Network\<close> is \<^verbatim>\<open>ipaddress.IPv4Network(text, strict=False)\<close>, giving the network
  address and the prefix length, \<open>IPv4Address\<close> is \<^verbatim>\<open>ipaddress.IPv4Address(text)\<close>, both
  \<open>None\<close> where the module raises its \<^verbatim>\<open>ValueError\<close>, and \<open>str_network\<close> is \<^verbatim>\<open>str\<close> on a
  network. Addresses are their 32-bit values.
\<close>

record ipaddress =
  IPv4Network :: "string \<Rightarrow> (nat \<times> nat) option"
  IPv4Address :: "string \<Rightarrow> nat option"
  str_network :: "nat \<times> nat \<Rightarrow> string"

text \<open>\<^verbatim>\<open>address in network\<close>: the address agrees with the network address under the mask.\<close>

definition in_network :: "nat \<Rightarrow> nat \<times> nat \<Rightarrow> bool" where
  "in_network a n = (a div 2 ^ (32 - snd n) = fst n div 2 ^ (32 - snd n))"

text \<open>The second \<^verbatim>\<open>try\<close> block of \<^verbatim>\<open>validate\<close> (lines 51 to 67).\<close>

definition validate_addresses :: "ipaddress \<Rightarrow> router_config \<Rightarrow> nat \<times> nat \<Rightarrow> exn + unit" where
  "validate_addresses lib cfg network =
     (case IPv4Address lib (cfg_usb_ip cfg) of
        None \<Rightarrow> Inl (ValueError ''Expected 4 octets'')
      | Some usb_ip \<Rightarrow>
     (case IPv4Address lib (cfg_usb_dhcp_start cfg) of
        None \<Rightarrow> Inl (ValueError ''Expected 4 octets'')
      | Some dhcp_start \<Rightarrow>
     (case IPv4Address lib (cfg_usb_dhcp_end cfg) of
        None \<Rightarrow> Inl (ValueError ''Expected 4 octets'')
      | Some dhcp_end \<Rightarrow>
          (if \<not> in_network usb_ip network then
             Inl (ValueError (''USB IP '' @ cfg_usb_ip cfg @ '' not in network '' @
                              cfg_usb_network cfg))
           else if \<not> in_network dhcp_start network then
             Inl (ValueError (''DHCP start '' @ cfg_usb_dhcp_start cfg @ '' not in network '' @
                              cfg_usb_network cfg))
           else if \<not> in_network dhcp_end network then
             Inl (ValueError (''DHCP end '' @ cfg_usb_dhcp_end cfg @ '' not in network '' @
                              cfg_usb_network cfg))
           else if dhcp_start \<ge> dhcp_end then
             Inl (ValueError ''DHCP start must be less than DHCP end'')
           else Inr ()))))"

text \<open>
  \<^verbatim>\<open>validate\<close>: the network is parsed and written back normalised, the addresses are
  checked, then the port. The result is the configuration as \<^verbatim>\<open>validate\<close> leaves it, or
  the exception it raises.
\<close>

definition validate :: "ipaddress \<Rightarrow> router_config \<Rightarrow> exn + router_config" where
  "validate lib cfg =
     (case IPv4Network lib (cfg_usb_network cfg) of
        None \<Rightarrow> Inl (ValueError ''Invalid USB network: '')
      | Some network \<Rightarrow>
          (let cfg1 = cfg\<lparr>cfg_usb_network := str_network lib network\<rparr> in
           case validate_addresses lib cfg1 network of
             Inl (ValueError m) \<Rightarrow> Inl (ValueError (''Invalid IP configuration: '' @ m))
           | Inl x \<Rightarrow> Inl x
           | Inr u \<Rightarrow>
               (if \<not> (1 \<le> cfg_dashboard_port cfg1 \<and> cfg_dashboard_port cfg1 \<le> 65535) then
                  Inl (ValueError (''Invalid dashboard port: '' @
                                   show_int (cfg_dashboard_port cfg1)))
                else Inr cfg1)))"

text \<open>Construction: the dataclass sets the fields and \<^verbatim>\<open>__post_init__\<close> validates.\<close>

definition post_init :: "ipaddress \<Rightarrow> router_config \<Rightarrow> exn + router_config" where
  "post_init lib cfg = validate lib cfg"

text \<open>
  Assignment to a field of an instance, \<^verbatim>\<open>cfg.field = value\<close>. The class is declared with
  \<^verbatim>\<open>@dataclass\<close> and no \<^verbatim>\<open>frozen=True\<close> (line 11), and it defines no \<^verbatim>\<open>__setattr__\<close>, so the
  value is stored and nothing else runs; \<^verbatim>\<open>validate\<close> itself assigns \<^verbatim>\<open>usb_network\<close> this
  way (line 45).
\<close>

datatype assignment =
    Usb_network string
  | Usb_ip string
  | Usb_dhcp_start string
  | Usb_dhcp_end string
  | Wan_interface string
  | Usb_interface string
  | Tailscale_interface string
  | Openvpn_interface string
  | Use_tailscale_exit bool
  | Enable_vpn_failover bool
  | Dashboard_enabled bool
  | Dashboard_port int
  | Dashboard_host string

fun setattr :: "assignment \<Rightarrow> router_config \<Rightarrow> router_config" where
  "setattr (Usb_network v) cfg = cfg\<lparr>cfg_usb_network := v\<rparr>"
| "setattr (Usb_ip v) cfg = cfg\<lparr>cfg_usb_ip := v\<rparr>"
| "setattr (Usb_dhcp_start v) cfg = cfg\<lparr>cfg_usb_dhcp_start := v\<rparr>"
| "setattr (Usb_dhcp_end v) cfg = cfg\<lparr>cfg_usb_dhcp_end := v\<rparr>"
| "setattr (Wan_interface v) cfg = cfg\<lparr>cfg_wan_interface := v\<rparr>"
| "setattr (Usb_interface v) cfg = cfg\<lparr>cfg_usb_interface := v\<rparr>"
| "setattr (Tailscale_interface v) cfg = cfg\<lparr>cfg_tailscale_interface := v\<rparr>"
| "setattr (Openvpn_interface v) cfg = cfg\<lparr>cfg_openvpn_interface := v\<rparr>"
| "setattr (Use_tailscale_exit v) cfg = cfg\<lparr>cfg_use_tailscale_exit := v\<rparr>"
| "setattr (Enable_vpn_failover v) cfg = cfg\<lparr>cfg_enable_vpn_failover := v\<rparr>"
| "setattr (Dashboard_enabled v) cfg = cfg\<lparr>cfg_dashboard_enabled := v\<rparr>"
| "setattr (Dashboard_port v) cfg = cfg\<lparr>cfg_dashboard_port := v\<rparr>"
| "setattr (Dashboard_host v) cfg = cfg\<lparr>cfg_dashboard_host := v\<rparr>"

subsection \<open>Reading a run, and the specification's own notions\<close>

text \<open>The log lines printed between two worlds, and a run of commands on the routing state.\<close>

definition printed :: "world \<Rightarrow> world \<Rightarrow> (level \<times> string) list" where
  "printed w w' = drop (length (logs w)) (logs w')"

fun os_run_all :: "env \<Rightarrow> cmd list \<Rightarrow> routing_state \<Rightarrow> routing_state" where
  "os_run_all e [] s = s"
| "os_run_all e (c # cs) s = os_run_all e cs (snd (os_run e c s))"

text \<open>
  What \<^verbatim>\<open>run_command\<close> does with a command in a routing state: the exception it
  raises, if any, and otherwise the exit status and output it returns.
\<close>

definition raises :: "env \<Rightarrow> cmd \<Rightarrow> bool \<Rightarrow> routing_state \<Rightarrow> exn option" where
  "raises e c check s =
     (case fst (os_run e c s) of
        Raised \<Rightarrow> Some OSError
      | Completed rc out \<Rightarrow>
          if check \<and> rc \<noteq> 0 then Some (CalledProcessError rc) else None)"

definition completed :: "env \<Rightarrow> cmd \<Rightarrow> routing_state \<Rightarrow> int \<times> string" where
  "completed e c s =
     (case fst (os_run e c s) of Raised \<Rightarrow> (0, []) | Completed rc out \<Rightarrow> (rc, out))"

text \<open>
  The effect of the switch functions on the routing state alone: a run of commands up
  to the first one that raises, the check-then-append of the masquerade rule, and the
  two \<^verbatim>\<open>try\<close> blocks. They are shown below to agree with the functions of the monitor.
\<close>

fun run_script :: "env \<Rightarrow> (cmd \<times> bool) list \<Rightarrow> routing_state \<Rightarrow> exn option \<times> routing_state" where
  "run_script e [] s = (None, s)"
| "run_script e ((c, k) # cs) s =
     (case raises e c k s of
        Some x \<Rightarrow> (Some x, snd (os_run e c s))
      | None \<Rightarrow> run_script e cs (snd (os_run e c s)))"

definition ensure_effect :: "env \<Rightarrow> string \<Rightarrow> string \<Rightarrow> routing_state \<Rightarrow> exn option \<times> routing_state" where
  "ensure_effect e i n s =
     (case raises e (IptablesC i n) True s of
        Some (CalledProcessError rc) \<Rightarrow>
          run_script e [(IptablesA i n, True)] (snd (os_run e (IptablesC i n) s))
      | Some x \<Rightarrow> (Some x, snd (os_run e (IptablesC i n) s))
      | None \<Rightarrow> (None, snd (os_run e (IptablesC i n) s)))"

definition openvpn_effect :: "env \<Rightarrow> monitor \<Rightarrow> routing_state \<Rightarrow> exn option \<times> routing_state" where
  "openvpn_effect e self s =
     (case run_script e
             [(IpRouteDelDefault, False),
              (IpRouteAddDefault None (openvpn_interface self), True),
              (IptablesD (tailscale_interface self) (usb_network self), False)] s of
        (Some x, s') \<Rightarrow> (Some x, s')
      | (None, s') \<Rightarrow> ensure_effect e (openvpn_interface self) (usb_network self) s')"

definition tailscale_effect :: "env \<Rightarrow> monitor \<Rightarrow> routing_state \<Rightarrow> exn option \<times> routing_state" where
  "tailscale_effect e self s =
     (case run_script e
             [(IpRouteDelDefault, False),
              (IpRouteShowDev (tailscale_interface self), True),
              (IpRouteAddDefault (gateway_match (dev_routes e (tailscale_interface self)))
                 (tailscale_interface self), True),
              (IptablesD (openvpn_interface self) (usb_network self), False)] s of
        (Some x, s') \<Rightarrow> (Some x, s')
      | (None, s') \<Rightarrow> ensure_effect e (tailscale_interface self) (usb_network self) s')"

text \<open>
  A log line at debug or error level, as \<^verbatim>\<open>run_command\<close> prints them; and a world with
  more history in front of its journal and its log.
\<close>

definition plain :: "level \<times> string \<Rightarrow> bool" where
  "plain x = (fst x = Debug \<or> fst x = Error)"

definition with_history :: "(cmd \<times> routing_state) list \<Rightarrow> (level \<times> string) list \<Rightarrow> world \<Rightarrow> world" where
  "with_history j l w = w\<lparr>journal := j @ journal w, logs := l @ logs w\<rparr>"

text \<open>
  Section 4.2 of the specification in its own words: the egress interface of the
  policy table's default route, mapped to Primary (Tailscale), Secondary (OpenVPN) or
  None when it is neither or the table has no default route.
\<close>

definition default_route_egress :: "routing_state \<Rightarrow> string option" where
  "default_route_egress s =
     (case filter is_default (table_usb_vpn s) of [] \<Rightarrow> None | r # rs \<Rightarrow> Some (dev r))"

definition spec_current_backend :: "monitor \<Rightarrow> routing_state \<Rightarrow> vpn" where
  "spec_current_backend self s =
     (case default_route_egress s of
        None \<Rightarrow> NoVpn
      | Some i \<Rightarrow>
          (if i = tailscale_interface self then Tailscale
           else if i = openvpn_interface self then Openvpn
           else NoVpn))"

text \<open>
  The transition table of section 4.4 of the specification in its own words, with
  Tailscale as the primary backend and OpenVPN as the secondary one: for the state at
  the start of a cycle and the two reachability samples, the action and the next state.
\<close>

datatype action = SwitchTo vpn | LogOnly level | NoAction

fun spec_transition :: "vpn \<Rightarrow> bool \<Rightarrow> bool \<Rightarrow> action \<times> vpn" where
  "spec_transition NoVpn True secondary = (SwitchTo Tailscale, Tailscale)"
| "spec_transition NoVpn False True = (SwitchTo Openvpn, Openvpn)"
| "spec_transition NoVpn False False = (LogOnly Warn, NoVpn)"
| "spec_transition Tailscale True secondary = (NoAction, Tailscale)"
| "spec_transition Tailscale False True = (SwitchTo Openvpn, Openvpn)"
| "spec_transition Tailscale False False = (LogOnly Error, Tailscale)"
| "spec_transition Openvpn True secondary = (SwitchTo Tailscale, Tailscale)"
| "spec_transition Openvpn False True = (NoAction, Openvpn)"
| "spec_transition Openvpn False False = (LogOnly Error, Openvpn)"

subsection \<open>Concrete situations\<close>

definition client_net :: string where
  "client_net = ''192.168.64.0/24''"

definition the_monitor :: monitor where
  "the_monitor = VPNMonitor_init 30 5 ''1.1.1.1''"

text \<open>
  Both tunnels exist, have an address and reach the test host; every command runs; the
  machine has been up for a day, so sleeps up to 9223285636 seconds are accepted.
\<close>

definition env_both_up :: env where
  "env_both_up =
     \<lparr>unavailable = (\<lambda>c. False), table_defined = True, link_exists = (\<lambda>i. True),
      addr_listing = (\<lambda>i. ''    inet 10.8.0.2/24 scope global''), dev_routes = (\<lambda>i. []),
      ping_replies = (\<lambda>i h. True), sleep_limit = 9223285636\<rparr>"

text \<open>Both tunnels exist and have an address, and neither reaches the test host.\<close>

definition env_both_down :: env where
  "env_both_down = env_both_up\<lparr>ping_replies := (\<lambda>i h. False)\<rparr>"

text \<open>The OpenVPN interface \<^verbatim>\<open>tun0\<close> is gone; the Tailscale interface is fine.\<close>

definition env_no_tun0 :: env where
  "env_no_tun0 = env_both_up\<lparr>link_exists := (\<lambda>i. i \<noteq> ''tun0'')\<rparr>"

text \<open>The Tailscale interface \<^verbatim>\<open>tailscale0\<close> is gone; the OpenVPN interface is fine.\<close>

definition env_no_tailscale0 :: env where
  "env_no_tailscale0 = env_both_up\<lparr>link_exists := (\<lambda>i. i \<noteq> ''tailscale0'')\<rparr>"

text \<open>Routing through Tailscale, as a completed switch leaves it, and through OpenVPN.\<close>

definition on_tailscale :: world where
  "on_tailscale =
     \<lparr>rstate = \<lparr>table_usb_vpn = [Route ''default'' None ''tailscale0''],
                 nat_postrouting = [(''tailscale0'', ''192.168.64.0/24'')]\<rparr>,
      journal = [], logs = []\<rparr>"

definition on_openvpn :: world where
  "on_openvpn =
     \<lparr>rstate = \<lparr>table_usb_vpn = [Route ''default'' None ''tun0''],
                 nat_postrouting = [(''tun0'', ''192.168.64.0/24'')]\<rparr>,
      journal = [], logs = []\<rparr>"

text \<open>
  The default route goes through OpenVPN, and an outside actor has put a second route
  into the policy table that goes through the Tailscale interface.
\<close>

definition both_listed :: world where
  "both_listed =
     \<lparr>rstate = \<lparr>table_usb_vpn = [Route ''default'' None ''tun0'',
                                 Route ''100.64.0.0/10'' None ''tailscale0''],
                 nat_postrouting = [(''tun0'', ''192.168.64.0/24'')]\<rparr>,
      journal = [], logs = []\<rparr>"

text \<open>
  Routing through OpenVPN, with the masquerade rule of the OpenVPN interface in the
  chain twice.
\<close>

definition openvpn_rule_twice :: world where
  "openvpn_rule_twice =
     \<lparr>rstate = \<lparr>table_usb_vpn = [Route ''default'' None ''tun0''],
                 nat_postrouting = [(''tun0'', ''192.168.64.0/24''),
                                    (''tun0'', ''192.168.64.0/24'')]\<rparr>,
      journal = [], logs = []\<rparr>"


text \<open>
  An iteration during which nothing arrives from outside, with both tunnels down, and
  one during which the termination signal 15 arrives, with both tunnels up.
\<close>

definition quiet_event :: event where
  "quiet_event = \<lparr>ev_env = env_both_down, ev_outside = None, ev_signal = None\<rparr>"


text \<open>
  The default configuration of \<^verbatim>\<open>RouterConfig\<close>, and what \<^verbatim>\<open>ipaddress\<close> returns on the
  strings that occur in it: \<^verbatim>\<open>192.168.64.0\<close> is the address 3232251904.
\<close>

definition default_config :: router_config where
  "default_config =
     \<lparr>cfg_usb_network = ''192.168.64.0/24'', cfg_usb_ip = ''192.168.64.1'',
      cfg_usb_dhcp_start = ''192.168.64.50'', cfg_usb_dhcp_end = ''192.168.64.150'',
      cfg_wan_interface = ''wlan0'', cfg_usb_interface = ''usb0'',
      cfg_tailscale_interface = ''tailscale0'', cfg_openvpn_interface = ''tun0'',
      cfg_use_tailscale_exit = False, cfg_enable_vpn_failover = True,
      cfg_dashboard_enabled = False, cfg_dashboard_port = 8000,
      cfg_dashboard_host = ''0.0.0.0''\<rparr>"

definition ipaddress_on_defaults :: ipaddress where
  "ipaddress_on_defaults =
     \<lparr>IPv4Network = (\<lambda>t. if t = ''192.168.64.0/24'' then Some (3232251904, 24) else None),
      IPv4Address =
        (\<lambda>t. if t = ''192.168.64.1'' then Some 3232251905
             else if t = ''192.168.64.50'' then Some 3232251954
             else if t = ''192.168.64.150'' then Some 3232252054
             else if t = ''10.0.0.1'' then Some 167772161
             else None),
      str_network = (\<lambda>n. ''192.168.64.0/24'')\<rparr>"

section \<open>Properties\<close>

subsection \<open>Commands and strings\<close>

lemma run_command_fst:
  "fst (run_command e c k w) =
     (case fst (os_run e c (rstate w)) of
        Raised \<Rightarrow> Inl OSError
      | Completed rc out \<Rightarrow> if k \<and> rc \<noteq> 0 then Inl (CalledProcessError rc) else Inr (rc, out))"
  by (auto simp add: run_command_def log_line_def Let_def split: prod.splits outcome.splits)

lemma str_in_prefix: "prefix p t \<Longrightarrow> str_in p t"
  by (cases t) auto

lemma str_in_append: "str_in p (a @ p @ b)"
  by (induction a) (auto simp add: str_in_prefix)

lemma str_in_nonempty: "str_in p t \<Longrightarrow> p \<noteq> [] \<Longrightarrow> t \<noteq> []"
  by (cases t) auto

lemma get_current_vpn_char:
  "fst (get_current_vpn e self w) =
     Inr (case fst (os_run e IpRouteShowTable (rstate w)) of
            Raised \<Rightarrow> NoVpn
          | Completed rc out \<Rightarrow> vpn_of_listing self rc out)"
  by (cases "os_run e IpRouteShowTable (rstate w)"; cases "fst (os_run e IpRouteShowTable (rstate w))")
     (auto simp add: get_current_vpn_def run_command_def log_line_def Let_def)

lemma get_current_vpn_table:
  "fst (get_current_vpn e self w) =
     Inr (if unavailable e IpRouteShowTable \<or> \<not> table_defined e then NoVpn
          else vpn_of_listing self 0 (render_table (table_usb_vpn (rstate w))))"
  by (simp add: get_current_vpn_char os_run_def vpn_of_listing_def)

lemma render_table_empty: "render_table t = [] \<longleftrightarrow> t = []"
  by (cases t) (simp_all add: render_table_def render_route_def)

subsection \<open>The connectivity probe\<close>

lemma probe_char:
  "fst (check_interface_connectivity e self i w) =
     Inr (\<not> unavailable e (IpLinkShow i) \<and> link_exists e i \<and>
          \<not> unavailable e (IpAddrShow i) \<and> str_in ''inet '' (addr_listing e i) \<and>
          \<not> unavailable e (Ping i (ping_timeout self) (test_host self)) \<and>
          ping_replies e i (test_host self))"
  by (simp add: check_interface_connectivity_def check_interface_exists_def run_command_def
        os_run_def log_line_def Let_def)

lemma probe_issued:
  "issued w (snd (check_interface_connectivity e self i w)) =
     (if unavailable e (IpLinkShow i) \<or> \<not> link_exists e i then [IpLinkShow i]
      else if unavailable e (IpAddrShow i) \<or> \<not> str_in ''inet '' (addr_listing e i)
      then [IpLinkShow i, IpAddrShow i]
      else [IpLinkShow i, IpAddrShow i, Ping i (ping_timeout self) (test_host self)])"
  by (simp add: check_interface_connectivity_def check_interface_exists_def run_command_def
        os_run_def log_line_def Let_def issued_def)

text \<open>
  Claim C4. \<^verbatim>\<open>check_interface_connectivity\<close> never raises: its result is always a truth
  value. When the interface does not exist or \<^verbatim>\<open>ip addr show\<close> lists no \<^verbatim>\<open>inet\<close> address,
  the result is false and no \<^verbatim>\<open>ping\<close> is run. When one of its three commands cannot be
  run, or the ping gets no reply within its timeout, the result is false. The result
  is true only when the ping was run and exited with status zero.
\<close>

theorem check_interface_connectivity_fail_closed:
  "(\<exists>b. fst (check_interface_connectivity e self i w) = Inr b) \<and>
   (\<not> link_exists e i \<or> \<not> str_in ''inet '' (addr_listing e i) \<longrightarrow>
      fst (check_interface_connectivity e self i w) = Inr False \<and>
      Ping i (ping_timeout self) (test_host self)
        \<notin> set (issued w (snd (check_interface_connectivity e self i w)))) \<and>
   (unavailable e (IpLinkShow i) \<or> unavailable e (IpAddrShow i) \<or>
    unavailable e (Ping i (ping_timeout self) (test_host self)) \<or>
    \<not> ping_replies e i (test_host self) \<longrightarrow>
      fst (check_interface_connectivity e self i w) = Inr False) \<and>
   (fst (check_interface_connectivity e self i w) = Inr True \<longrightarrow>
      Ping i (ping_timeout self) (test_host self)
        \<in> set (issued w (snd (check_interface_connectivity e self i w))) \<and>
      fst (os_run e (Ping i (ping_timeout self) (test_host self)) (rstate w)) = Completed 0 [])"
  by (auto simp add: probe_char probe_issued os_run_def)

theorem check_interface_connectivity_fail_closed_witness:
  "fst (check_interface_connectivity env_no_tun0 the_monitor ''tun0'' on_tailscale) = Inr False \<and>
   Ping ''tun0'' 5 ''1.1.1.1''
     \<notin> set (issued on_tailscale
              (snd (check_interface_connectivity env_no_tun0 the_monitor ''tun0'' on_tailscale))) \<and>
   fst (check_interface_connectivity env_both_down the_monitor ''tun0'' on_tailscale) = Inr False \<and>
   fst (check_interface_connectivity env_both_up the_monitor ''tun0'' on_tailscale) = Inr True \<and>
   Ping ''tun0'' 5 ''1.1.1.1''
     \<in> set (issued on_tailscale
              (snd (check_interface_connectivity env_both_up the_monitor ''tun0'' on_tailscale)))"
proof -
  have up: "fst (check_interface_connectivity env_both_up the_monitor ''tun0'' on_tailscale) = Inr True"
    by (simp add: probe_char env_both_up_def the_monitor_def VPNMonitor_init_def)
  have gone: "\<not> link_exists env_no_tun0 ''tun0''"
    by (simp add: env_no_tun0_def env_both_up_def)
  have silent: "\<not> ping_replies env_both_down ''tun0'' (test_host the_monitor)"
    by (simp add: env_both_down_def env_both_up_def)
  show ?thesis
    using check_interface_connectivity_fail_closed
            [of env_no_tun0 the_monitor "''tun0''" on_tailscale]
          check_interface_connectivity_fail_closed
            [of env_both_down the_monitor "''tun0''" on_tailscale]
          check_interface_connectivity_fail_closed
            [of env_both_up the_monitor "''tun0''" on_tailscale]
          up gone silent
    by (simp add: the_monitor_def VPNMonitor_init_def)
qed

subsection \<open>The routing state reader\<close>

text \<open>
  Claim C10. \<^verbatim>\<open>get_current_vpn\<close> always returns a value, and that value is a function
  of the outcome of \<^verbatim>\<open>ip route show table usb_vpn\<close> alone. A listing that names both
  interfaces is read as Tailscale, and OpenVPN is reported only for a listing that
  names the OpenVPN interface and not the Tailscale one.
\<close>

theorem get_current_vpn_primary_first:
  "fst (get_current_vpn e self w) =
     Inr (case fst (os_run e IpRouteShowTable (rstate w)) of
            Raised \<Rightarrow> NoVpn
          | Completed rc out \<Rightarrow> vpn_of_listing self rc out) \<and>
   (rc = 0 \<and> out \<noteq> [] \<and> str_in (tailscale_interface self) out \<and>
    str_in (openvpn_interface self) out \<longrightarrow> vpn_of_listing self rc out = Tailscale) \<and>
   (vpn_of_listing self rc out = Openvpn \<longrightarrow>
      \<not> str_in (tailscale_interface self) out \<and> str_in (openvpn_interface self) out)"
  by (simp add: get_current_vpn_char vpn_of_listing_def)

theorem get_current_vpn_primary_first_witness:
  "vpn_of_listing the_monitor 0 (render_table (table_usb_vpn (rstate both_listed))) = Tailscale \<and>
   vpn_of_listing the_monitor 0 (render_table (table_usb_vpn (rstate on_openvpn))) = Openvpn \<and>
   \<not> str_in ''tailscale0'' (render_table (table_usb_vpn (rstate on_openvpn)))"
proof -
  have both: "str_in ''tailscale0'' (render_table (table_usb_vpn (rstate both_listed))) \<and>
              str_in ''tun0'' (render_table (table_usb_vpn (rstate both_listed)))"
    by (simp add: both_listed_def render_table_def render_route_def newline_def)
  have ov: "vpn_of_listing the_monitor 0 (render_table (table_usb_vpn (rstate on_openvpn))) = Openvpn"
    by (simp add: the_monitor_def VPNMonitor_init_def on_openvpn_def render_table_def
          render_route_def newline_def vpn_of_listing_def)
  show ?thesis
    using both ov
      get_current_vpn_primary_first
        [of env_both_up the_monitor both_listed 0
            "render_table (table_usb_vpn (rstate both_listed))"]
      get_current_vpn_primary_first
        [of env_both_up the_monitor on_openvpn 0
            "render_table (table_usb_vpn (rstate on_openvpn))"]
    by (simp add: the_monitor_def VPNMonitor_init_def render_table_empty both_listed_def)
qed

text \<open>
  Claim C6, as stated, at a concrete input: the default route of the policy table leaves
  through \<^verbatim>\<open>tun0\<close>, which the specification maps to Secondary, and \<^verbatim>\<open>get_current_vpn\<close>
  reports Tailscale, because another route of the table names \<^verbatim>\<open>tailscale0\<close>.
\<close>

theorem get_current_vpn_not_default_egress:
  "fst (get_current_vpn env_both_up the_monitor both_listed) = Inr Tailscale \<and>
   default_route_egress (rstate both_listed) = Some ''tun0'' \<and>
   spec_current_backend the_monitor (rstate both_listed) = Openvpn"
  by (simp add: get_current_vpn_table env_both_up_def the_monitor_def VPNMonitor_init_def
        both_listed_def vpn_of_listing_def render_table_def render_route_def
        spec_current_backend_def default_route_egress_def is_default_def newline_def)

text \<open>
  Claim C6, amended. \<^verbatim>\<open>get_current_vpn\<close> never raises. It reports none when the command
  cannot be run, exits with a non-zero status or lists nothing; otherwise Tailscale
  when the Tailscale interface name occurs anywhere in the listing, else OpenVPN when
  the OpenVPN interface name occurs in it, else none. For a table that holds just the
  default route a switch installs, this is the egress interface of that route.
\<close>

theorem get_current_vpn_listing:
  "fst (get_current_vpn e self w) =
     Inr (if unavailable e IpRouteShowTable \<or> \<not> table_defined e \<or>
             table_usb_vpn (rstate w) = [] then NoVpn
          else if str_in (tailscale_interface self) (render_table (table_usb_vpn (rstate w)))
          then Tailscale
          else if str_in (openvpn_interface self) (render_table (table_usb_vpn (rstate w)))
          then Openvpn
          else NoVpn) \<and>
   (\<not> unavailable e IpRouteShowTable \<and> table_defined e \<and>
    table_usb_vpn (rstate w) = [Route ''default'' g (tailscale_interface self)] \<longrightarrow>
      fst (get_current_vpn e self w) = Inr Tailscale) \<and>
   (\<not> unavailable e IpRouteShowTable \<and> table_defined e \<and>
    table_usb_vpn (rstate w) = [Route ''default'' None ''tun0''] \<longrightarrow>
      fst (get_current_vpn e (VPNMonitor_init ci pt th) w) = Inr Openvpn)"
proof -
  have a: "render_table [Route ''default'' g (tailscale_interface self)] =
             (''default'' @ (case g of Some x \<Rightarrow> '' via '' @ x | None \<Rightarrow> []) @ '' dev '') @
             tailscale_interface self @ ('' '' @ [newline])"
    by (simp add: render_table_def render_route_def)
  have b: "str_in (tailscale_interface self)
             (render_table [Route ''default'' g (tailscale_interface self)])"
    unfolding a by (rule str_in_append)
  show ?thesis
    using b
    by (simp add: get_current_vpn_table vpn_of_listing_def render_table_empty)
       (simp add: VPNMonitor_init_def render_table_def render_route_def newline_def)
qed

theorem get_current_vpn_listing_witness:
  "fst (get_current_vpn env_both_up the_monitor on_tailscale) = Inr Tailscale \<and>
   fst (get_current_vpn env_both_up the_monitor on_openvpn) = Inr Openvpn"
proof -
  have ts: "\<not> unavailable env_both_up IpRouteShowTable \<and> table_defined env_both_up \<and>
            table_usb_vpn (rstate on_tailscale) =
              [Route ''default'' None (tailscale_interface the_monitor)]"
    by (simp add: env_both_up_def on_tailscale_def the_monitor_def VPNMonitor_init_def)
  have ov: "\<not> unavailable env_both_up IpRouteShowTable \<and> table_defined env_both_up \<and>
            table_usb_vpn (rstate on_openvpn) = [Route ''default'' None ''tun0'']"
    by (simp add: env_both_up_def on_openvpn_def)
  have m: "VPNMonitor_init 30 5 ''1.1.1.1'' = the_monitor"
    by (simp add: the_monitor_def)
  show ?thesis
    using ts ov
      get_current_vpn_listing [of env_both_up the_monitor on_tailscale None 30 5 "''1.1.1.1''"]
      get_current_vpn_listing [of env_both_up the_monitor on_openvpn None 30 5 "''1.1.1.1''"]
    unfolding m by blast
qed

subsection \<open>The route switcher\<close>

lemma run_command_result:
  "fst (run_command e c k w) =
     (case raises e c k (rstate w) of Some x \<Rightarrow> Inl x | None \<Rightarrow> Inr (completed e c (rstate w)))"
  by (auto simp add: run_command_def raises_def completed_def log_line_def Let_def
        split: prod.splits outcome.splits)

lemma run_command_rstate:
  "rstate (snd (run_command e c k w)) = snd (os_run e c (rstate w))"
  by (auto simp add: run_command_def log_line_def Let_def split: prod.splits outcome.splits)

lemma run_command_journal:
  "journal (snd (run_command e c k w)) = journal w @ [(c, snd (os_run e c (rstate w)))]"
  by (auto simp add: run_command_def log_line_def Let_def split: prod.splits outcome.splits)

lemma raises_is_Exception: "raises e c k s = Some x \<Longrightarrow> is_Exception x"
  by (auto simp add: raises_def split: outcome.splits if_splits)

lemma log_rstate: "rstate (log_with_timestamp l m w) = rstate w"
  and log_journal: "journal (log_with_timestamp l m w) = journal w"
  and log_logs: "logs (log_with_timestamp l m w) = logs w @ [(l, m)]"
  by (simp_all add: log_with_timestamp_def log_line_def)

lemma show_dev_output:
  "raises e (IpRouteShowDev i) True s = None \<Longrightarrow> snd (completed e (IpRouteShowDev i) s) = dev_routes e i"
  by (simp add: raises_def completed_def os_run_def split: if_splits)

lemma add_default_gateway:
  "(case g of
      Some gateway \<Rightarrow> run_command e (IpRouteAddDefault (Some gateway) i) k w
    | None \<Rightarrow> run_command e (IpRouteAddDefault None i) k w) =
   run_command e (IpRouteAddDefault g i) k w"
  by (cases g) simp_all

lemma log_logs_last: "last (logs (log_with_timestamp l m w)) = (l, m)"
  by (simp add: log_with_timestamp_def log_line_def)

lemma run_commandD:
  "run_command e c k w = (r, w') \<Longrightarrow>
     rstate w' = snd (os_run e c (rstate w)) \<and>
     journal w' = journal w @ [(c, snd (os_run e c (rstate w)))] \<and>
     r = (case raises e c k (rstate w) of
            Some x \<Rightarrow> Inl x
          | None \<Rightarrow> Inr (completed e c (rstate w)))"
  using run_command_result [of e c k w] run_command_rstate [of e c k w]
        run_command_journal [of e c k w]
  by simp

lemma ensureD:
  "ensure_nat_rule e i n w = (r, w') \<Longrightarrow>
     (\<exists>cs. journal w' = journal w @ cs \<and> rstate w' = os_run_all e (map fst cs) (rstate w) \<and>
           prefix (map fst cs) [IptablesC i n, IptablesA i n] \<and> cs \<noteq> [] \<and>
           (case r of
              Inl x \<Rightarrow> raises e (last (map fst cs)) True
                         (os_run_all e (butlast (map fst cs)) (rstate w)) = Some x
            | Inr u \<Rightarrow> (i, n) \<in> set (nat_postrouting (rstate w'))))"
  apply (simp add: ensure_nat_rule_def split: prod.splits sum.splits exn.splits)
  apply (auto dest!: run_commandD split: option.splits)
  apply (auto simp add: raises_def os_run_def split: if_splits)
  done

lemma raises_unchecked: "raises e c False s = Some x \<Longrightarrow> raises e c True s = Some x"
  by (auto simp add: raises_def split: outcome.splits if_splits)

lemma ov_tryD:
  "switch_to_openvpn_try e self w = (r, w') \<Longrightarrow>
     (\<exists>cs. journal w' = journal w @ cs \<and> rstate w' = os_run_all e (map fst cs) (rstate w) \<and>
           prefix (map fst cs)
             [IpRouteDelDefault, IpRouteAddDefault None (openvpn_interface self),
              IptablesD (tailscale_interface self) (usb_network self),
              IptablesC (openvpn_interface self) (usb_network self),
              IptablesA (openvpn_interface self) (usb_network self)] \<and>
           cs \<noteq> [] \<and>
           (case r of
              Inl x \<Rightarrow> raises e (last (map fst cs)) True
                         (os_run_all e (butlast (map fst cs)) (rstate w)) = Some x
            | Inr u \<Rightarrow> (openvpn_interface self, usb_network self)
                         \<in> set (nat_postrouting (rstate w'))))"
  apply (simp add: switch_to_openvpn_try_def split: prod.splits sum.splits)
  apply (auto dest!: run_commandD ensureD raises_unchecked split: option.splits sum.splits
              simp add: butlast_append last_append)
  done

lemma show_dev_output_pair:
  "raises e (IpRouteShowDev i) True s = None \<Longrightarrow> (a, b) = completed e (IpRouteShowDev i) s \<Longrightarrow>
     b = dev_routes e i"
  using show_dev_output [of e i s] by (cases "completed e (IpRouteShowDev i) s") simp

lemma ts_tryD:
  "switch_to_tailscale_try e self w = (r, w') \<Longrightarrow>
     (\<exists>cs. journal w' = journal w @ cs \<and> rstate w' = os_run_all e (map fst cs) (rstate w) \<and>
           prefix (map fst cs)
             [IpRouteDelDefault, IpRouteShowDev (tailscale_interface self),
              IpRouteAddDefault (gateway_match (dev_routes e (tailscale_interface self)))
                (tailscale_interface self),
              IptablesD (openvpn_interface self) (usb_network self),
              IptablesC (tailscale_interface self) (usb_network self),
              IptablesA (tailscale_interface self) (usb_network self)] \<and>
           cs \<noteq> [] \<and>
           (case r of
              Inl x \<Rightarrow> raises e (last (map fst cs)) True
                         (os_run_all e (butlast (map fst cs)) (rstate w)) = Some x
            | Inr u \<Rightarrow> (tailscale_interface self, usb_network self)
                         \<in> set (nat_postrouting (rstate w'))))"
  apply (simp add: switch_to_tailscale_try_def add_default_gateway split: prod.splits sum.splits)
  apply (auto dest!: run_commandD ensureD raises_unchecked split: option.splits sum.splits
              simp add: butlast_append last_append dest: show_dev_output_pair)
  done

lemma ovD:
  assumes "switch_to_openvpn e self w = (r, w')"
  shows "\<exists>b cs. r = Inr b \<and> journal w' = journal w @ cs \<and>
           rstate w' = os_run_all e (map fst cs) (rstate w) \<and>
           prefix (map fst cs)
             [IpRouteDelDefault, IpRouteAddDefault None (openvpn_interface self),
              IptablesD (tailscale_interface self) (usb_network self),
              IptablesC (openvpn_interface self) (usb_network self),
              IptablesA (openvpn_interface self) (usb_network self)] \<and>
           cs \<noteq> [] \<and>
           (if b then (openvpn_interface self, usb_network self) \<in> set (nat_postrouting (rstate w'))
            else (\<exists>m. last (logs w') = (Error, ''Failed to switch to OpenVPN: '' @ m)) \<and>
                 raises e (last (map fst cs)) True
                   (os_run_all e (butlast (map fst cs)) (rstate w)) \<noteq> None)"
proof -
  obtain r1 w1 where t:
    "switch_to_openvpn_try e self
       (log_with_timestamp Info ''Switching USB routing to OpenVPN...'' w) = (r1, w1)"
    by fastforce
  from ov_tryD [OF t, unfolded log_rstate log_journal] obtain cs where
    j: "journal w1 = journal w @ cs" and
    s: "rstate w1 = os_run_all e (map fst cs) (rstate w)" and
    p: "prefix (map fst cs)
             [IpRouteDelDefault, IpRouteAddDefault None (openvpn_interface self),
              IptablesD (tailscale_interface self) (usb_network self),
              IptablesC (openvpn_interface self) (usb_network self),
              IptablesA (openvpn_interface self) (usb_network self)]" and
    n: "cs \<noteq> []" and
    c: "case r1 of
          Inl x \<Rightarrow> raises e (last (map fst cs)) True
                     (os_run_all e (butlast (map fst cs)) (rstate w)) = Some x
        | Inr u \<Rightarrow> (openvpn_interface self, usb_network self) \<in> set (nat_postrouting (rstate w1))"
    by blast
  show ?thesis
  proof (cases r1)
    case (Inl x)
    with c have rx: "raises e (last (map fst cs)) True
                       (os_run_all e (butlast (map fst cs)) (rstate w)) = Some x"
      by simp
    then have "is_Exception x" by (rule raises_is_Exception)
    with assms t Inl have r: "r = Inr False" and
      w: "w' = log_with_timestamp Error (''Failed to switch to OpenVPN: '' @ exn_text x) w1"
      by (simp_all add: switch_to_openvpn_def)
    show ?thesis
      apply (rule exI [of _ False])
      apply (rule exI [of _ cs])
      using r w j s p n rx
      apply (simp add: log_rstate log_journal log_logs_last)
      done
  next
    case (Inr u)
    with assms t have r: "r = Inr True" and
      w: "w' = log_with_timestamp Info ''Switched to OpenVPN successfully'' w1"
      by (simp_all add: switch_to_openvpn_def)
    show ?thesis
      apply (rule exI [of _ True])
      apply (rule exI [of _ cs])
      using r w j s p n c Inr
      apply (simp add: log_rstate log_journal)
      done
  qed
qed

lemma tsD:
  assumes "switch_to_tailscale e self w = (r, w')"
  shows "\<exists>b cs. r = Inr b \<and> journal w' = journal w @ cs \<and>
           rstate w' = os_run_all e (map fst cs) (rstate w) \<and>
           prefix (map fst cs)
             [IpRouteDelDefault, IpRouteShowDev (tailscale_interface self),
              IpRouteAddDefault (gateway_match (dev_routes e (tailscale_interface self)))
                (tailscale_interface self),
              IptablesD (openvpn_interface self) (usb_network self),
              IptablesC (tailscale_interface self) (usb_network self),
              IptablesA (tailscale_interface self) (usb_network self)] \<and>
           cs \<noteq> [] \<and>
           (if b then (tailscale_interface self, usb_network self) \<in> set (nat_postrouting (rstate w'))
            else (\<exists>m. last (logs w') = (Error, ''Failed to switch to Tailscale: '' @ m)) \<and>
                 raises e (last (map fst cs)) True
                   (os_run_all e (butlast (map fst cs)) (rstate w)) \<noteq> None)"
proof -
  obtain r1 w1 where t:
    "switch_to_tailscale_try e self
       (log_with_timestamp Info ''Switching USB routing to Tailscale...'' w) = (r1, w1)"
    by fastforce
  from ts_tryD [OF t, unfolded log_rstate log_journal] obtain cs where
    j: "journal w1 = journal w @ cs" and
    s: "rstate w1 = os_run_all e (map fst cs) (rstate w)" and
    p: "prefix (map fst cs)
             [IpRouteDelDefault, IpRouteShowDev (tailscale_interface self),
              IpRouteAddDefault (gateway_match (dev_routes e (tailscale_interface self)))
                (tailscale_interface self),
              IptablesD (openvpn_interface self) (usb_network self),
              IptablesC (tailscale_interface self) (usb_network self),
              IptablesA (tailscale_interface self) (usb_network self)]" and
    n: "cs \<noteq> []" and
    c: "case r1 of
          Inl x \<Rightarrow> raises e (last (map fst cs)) True
                     (os_run_all e (butlast (map fst cs)) (rstate w)) = Some x
        | Inr u \<Rightarrow> (tailscale_interface self, usb_network self) \<in> set (nat_postrouting (rstate w1))"
    by blast
  show ?thesis
  proof (cases r1)
    case (Inl x)
    with c have rx: "raises e (last (map fst cs)) True
                       (os_run_all e (butlast (map fst cs)) (rstate w)) = Some x"
      by simp
    then have "is_Exception x" by (rule raises_is_Exception)
    with assms t Inl have r: "r = Inr False" and
      w: "w' = log_with_timestamp Error (''Failed to switch to Tailscale: '' @ exn_text x) w1"
      by (simp_all add: switch_to_tailscale_def)
    show ?thesis
      apply (rule exI [of _ False])
      apply (rule exI [of _ cs])
      using r w j s p n rx
      apply (simp add: log_rstate log_journal log_logs_last)
      done
  next
    case (Inr u)
    with assms t have r: "r = Inr True" and
      w: "w' = log_with_timestamp Info ''Switched to Tailscale successfully'' w1"
      by (simp_all add: switch_to_tailscale_def)
    show ?thesis
      apply (rule exI [of _ True])
      apply (rule exI [of _ cs])
      using r w j s p n c Inr
      apply (simp add: log_rstate log_journal)
      done
  qed
qed

lemma issued_append: "journal w' = journal w @ cs \<Longrightarrow> issued w w' = map fst cs"
  by (simp add: issued_def)

text \<open>
  Claim C2, as stated, at a concrete input: routing goes through Tailscale and every
  command succeeds. \<^verbatim>\<open>switch_to_openvpn\<close> runs five commands; after the third one, which
  deletes the masquerade rule of \<^verbatim>\<open>tailscale0\<close>, and after the fourth the chain holds no
  masquerade rule for the client subnet, and only the fifth appends the rule of
  \<^verbatim>\<open>tun0\<close>.
\<close>

theorem switch_window_without_masquerade:
  "map fst (journal (snd (switch_to_openvpn env_both_up the_monitor on_tailscale))) =
     [IpRouteDelDefault, IpRouteAddDefault None ''tun0'',
      IptablesD ''tailscale0'' ''192.168.64.0/24'', IptablesC ''tun0'' ''192.168.64.0/24'',
      IptablesA ''tun0'' ''192.168.64.0/24''] \<and>
   map (nat_postrouting \<circ> snd)
       (journal (snd (switch_to_openvpn env_both_up the_monitor on_tailscale))) =
     [[(''tailscale0'', ''192.168.64.0/24'')], [(''tailscale0'', ''192.168.64.0/24'')],
      [], [], [(''tun0'', ''192.168.64.0/24'')]]"
  by code_simp

text \<open>
  Claim C2, amended. Whatever fails, the commands a switch runs are an initial segment
  of: delete the default route, (for Tailscale, list the routes of the device,) add the
  default route through the target, delete the masquerade rule of the other interface,
  check the rule of the target interface, append it. So the rule of the other interface
  is removed before the rule of the target interface is checked or appended. A switch
  that returns true ends with a masquerade rule for the client subnet on the target
  interface.
\<close>

theorem switch_removes_old_rule_first:
  "prefix (issued w (snd (switch_to_openvpn e self w)))
     [IpRouteDelDefault, IpRouteAddDefault None (openvpn_interface self),
      IptablesD (tailscale_interface self) (usb_network self),
      IptablesC (openvpn_interface self) (usb_network self),
      IptablesA (openvpn_interface self) (usb_network self)] \<and>
   prefix (issued w (snd (switch_to_tailscale e self w)))
     [IpRouteDelDefault, IpRouteShowDev (tailscale_interface self),
      IpRouteAddDefault (gateway_match (dev_routes e (tailscale_interface self)))
        (tailscale_interface self),
      IptablesD (openvpn_interface self) (usb_network self),
      IptablesC (tailscale_interface self) (usb_network self),
      IptablesA (tailscale_interface self) (usb_network self)] \<and>
   (fst (switch_to_openvpn e self w) = Inr True \<longrightarrow>
      (openvpn_interface self, usb_network self)
        \<in> set (nat_postrouting (rstate (snd (switch_to_openvpn e self w))))) \<and>
   (fst (switch_to_tailscale e self w) = Inr True \<longrightarrow>
      (tailscale_interface self, usb_network self)
        \<in> set (nat_postrouting (rstate (snd (switch_to_tailscale e self w)))))"
proof -
  obtain r w' where a: "switch_to_openvpn e self w = (r, w')" by fastforce
  obtain r2 w2 where b: "switch_to_tailscale e self w = (r2, w2)" by fastforce
  from ovD [OF a] have "prefix (issued w w')
     [IpRouteDelDefault, IpRouteAddDefault None (openvpn_interface self),
      IptablesD (tailscale_interface self) (usb_network self),
      IptablesC (openvpn_interface self) (usb_network self),
      IptablesA (openvpn_interface self) (usb_network self)] \<and>
     (r = Inr True \<longrightarrow>
        (openvpn_interface self, usb_network self) \<in> set (nat_postrouting (rstate w')))"
    by (auto simp add: issued_append)
  moreover from tsD [OF b] have "prefix (issued w w2)
     [IpRouteDelDefault, IpRouteShowDev (tailscale_interface self),
      IpRouteAddDefault (gateway_match (dev_routes e (tailscale_interface self)))
        (tailscale_interface self),
      IptablesD (openvpn_interface self) (usb_network self),
      IptablesC (tailscale_interface self) (usb_network self),
      IptablesA (tailscale_interface self) (usb_network self)] \<and>
     (r2 = Inr True \<longrightarrow>
        (tailscale_interface self, usb_network self) \<in> set (nat_postrouting (rstate w2)))"
    by (auto simp add: issued_append)
  ultimately show ?thesis by (simp add: a b)
qed

theorem switch_removes_old_rule_first_witness:
  "(openvpn_interface the_monitor, usb_network the_monitor)
     \<in> set (nat_postrouting
              (rstate (snd (switch_to_openvpn env_both_up the_monitor on_tailscale)))) \<and>
   (tailscale_interface the_monitor, usb_network the_monitor)
     \<in> set (nat_postrouting
              (rstate (snd (switch_to_tailscale env_both_up the_monitor on_openvpn))))"
proof -
  have a: "fst (switch_to_openvpn env_both_up the_monitor on_tailscale) = Inr True"
    by code_simp
  have b: "fst (switch_to_tailscale env_both_up the_monitor on_openvpn) = Inr True"
    by code_simp
  show ?thesis
    using a b
      switch_removes_old_rule_first [where e = env_both_up and self = the_monitor
        and w = on_tailscale]
      switch_removes_old_rule_first [where e = env_both_up and self = the_monitor
        and w = on_openvpn]
    by blast
qed




subsection \<open>Switching twice\<close>

lemma del_first_none: "\<forall>x\<in>set xs. \<not> P x \<Longrightarrow> del_first P xs = xs"
  by (induction xs) auto

lemma del_first_last: "\<forall>x\<in>set xs. \<not> P x \<Longrightarrow> P d \<Longrightarrow> del_first P (xs @ [d]) = xs"
  by (induction xs) auto

lemma del_first_single:
  "length (filter P xs) \<le> 1 \<Longrightarrow> x \<in> set (del_first P xs) \<Longrightarrow> \<not> P x"
  by (induction xs) (auto split: if_splits simp add: filter_empty_conv)

lemma remove1_single: "count_list xs a \<le> 1 \<Longrightarrow> a \<notin> set (remove1 a xs)"
  by (induction xs) (auto split: if_splits simp add: count_list_0_iff)

lemma ov_idem:
  assumes d: "length (filter is_default (table_usb_vpn s)) \<le> 1"
    and n: "count_list (nat_postrouting s) (tailscale_interface self, usb_network self) \<le> 1"
    and i: "tailscale_interface self \<noteq> openvpn_interface self"
  shows "openvpn_effect e self (snd (openvpn_effect e self s)) = openvpn_effect e self s"
proof -
  have a: "\<And>x. x \<in> set (del_first is_default (table_usb_vpn s)) \<Longrightarrow> \<not> is_default x"
    using d by (rule del_first_single)
  have b: "(tailscale_interface self, usb_network self)
             \<notin> set (remove1 (tailscale_interface self, usb_network self) (nat_postrouting s))"
    using n by (rule remove1_single)
  have c: "is_default (Route ''default'' None (openvpn_interface self))"
    by (simp add: is_default_def)
  show ?thesis
    using a b c i
    by (auto simp add: openvpn_effect_def ensure_effect_def raises_def os_run_def
          del_first_none del_first_last remove1_idem
          split: if_splits)
qed

lemma ts_idem:
  assumes d: "length (filter is_default (table_usb_vpn s)) \<le> 1"
    and n: "count_list (nat_postrouting s) (openvpn_interface self, usb_network self) \<le> 1"
    and i: "tailscale_interface self \<noteq> openvpn_interface self"
  shows "tailscale_effect e self (snd (tailscale_effect e self s)) = tailscale_effect e self s"
proof -
  have a: "\<And>x. x \<in> set (del_first is_default (table_usb_vpn s)) \<Longrightarrow> \<not> is_default x"
    using d by (rule del_first_single)
  have b: "(openvpn_interface self, usb_network self)
             \<notin> set (remove1 (openvpn_interface self, usb_network self) (nat_postrouting s))"
    using n by (rule remove1_single)
  have c: "\<And>g. is_default (Route ''default'' g (tailscale_interface self))"
    by (simp add: is_default_def)
  show ?thesis
    using a b c i
    by (auto simp add: tailscale_effect_def ensure_effect_def raises_def os_run_def
          del_first_none del_first_last remove1_idem
          split: if_splits)
qed


lemma ensure_effectD:
  "ensure_nat_rule e i n w = (r, w') \<Longrightarrow>
     ensure_effect e i n (rstate w) = (case r of Inl x \<Rightarrow> Some x | Inr u \<Rightarrow> None, rstate w')"
  apply (simp add: ensure_nat_rule_def ensure_effect_def split: prod.splits sum.splits exn.splits)
  apply (auto dest!: run_commandD split: option.splits)
  done

lemma ov_try_effect:
  "switch_to_openvpn_try e self w = (r, w') \<Longrightarrow>
     openvpn_effect e self (rstate w) = (case r of Inl x \<Rightarrow> Some x | Inr u \<Rightarrow> None, rstate w')"
  apply (simp add: switch_to_openvpn_try_def openvpn_effect_def split: prod.splits sum.splits)
  apply (auto dest!: run_commandD ensure_effectD split: option.splits sum.splits)
  done

lemma ts_try_effect:
  "switch_to_tailscale_try e self w = (r, w') \<Longrightarrow>
     tailscale_effect e self (rstate w) =
       (case r of Inl x \<Rightarrow> Some x | Inr u \<Rightarrow> None, rstate w')"
  apply (simp add: switch_to_tailscale_try_def tailscale_effect_def add_default_gateway
           split: prod.splits sum.splits)
  apply (auto dest!: run_commandD ensure_effectD split: option.splits sum.splits
              dest: show_dev_output_pair)
  done

lemma ov_try_raises: "switch_to_openvpn_try e self w = (Inl x, w') \<Longrightarrow> is_Exception x"
  by (auto dest!: ov_tryD dest: raises_is_Exception)

lemma ov_effect:
  "fst (switch_to_openvpn e self w) = Inr (fst (openvpn_effect e self (rstate w)) = None) \<and>
   rstate (snd (switch_to_openvpn e self w)) = snd (openvpn_effect e self (rstate w))"
proof -
  obtain r1 w1 where t:
    "switch_to_openvpn_try e self
       (log_with_timestamp Info ''Switching USB routing to OpenVPN...'' w) = (r1, w1)"
    by fastforce
  note ef = ov_try_effect [OF t, unfolded log_rstate]
  show ?thesis
  proof (cases r1)
    case (Inl x)
    with t have "is_Exception x" by (auto dest: ov_try_raises)
    with t Inl ef show ?thesis by (simp add: switch_to_openvpn_def log_rstate)
  next
    case (Inr u)
    with t ef show ?thesis by (simp add: switch_to_openvpn_def log_rstate)
  qed
qed

lemma ts_try_raises: "switch_to_tailscale_try e self w = (Inl x, w') \<Longrightarrow> is_Exception x"
  by (auto dest!: ts_tryD dest: raises_is_Exception)

lemma ts_effect:
  "fst (switch_to_tailscale e self w) = Inr (fst (tailscale_effect e self (rstate w)) = None) \<and>
   rstate (snd (switch_to_tailscale e self w)) = snd (tailscale_effect e self (rstate w))"
proof -
  obtain r1 w1 where t:
    "switch_to_tailscale_try e self
       (log_with_timestamp Info ''Switching USB routing to Tailscale...'' w) = (r1, w1)"
    by fastforce
  note ef = ts_try_effect [OF t, unfolded log_rstate]
  show ?thesis
  proof (cases r1)
    case (Inl x)
    with t have "is_Exception x" by (auto dest: ts_try_raises)
    with t Inl ef show ?thesis by (simp add: switch_to_tailscale_def log_rstate)
  next
    case (Inr u)
    with t ef show ?thesis by (simp add: switch_to_tailscale_def log_rstate)
  qed
qed

text \<open>
  Claim C7, as stated, at a concrete input: the chain holds the masquerade rule of
  \<^verbatim>\<open>tun0\<close> twice and every command succeeds. One call of \<^verbatim>\<open>switch_to_tailscale\<close>
  deletes one of the two rules and leaves the other beside the new rule of
  \<^verbatim>\<open>tailscale0\<close>; the second call deletes that one too. Both calls return true, and the
  two final routing states differ.
\<close>

theorem second_switch_changes_state:
  "fst (switch_to_tailscale env_both_up the_monitor openvpn_rule_twice) = Inr True \<and>
   nat_postrouting (rstate (snd (switch_to_tailscale env_both_up the_monitor openvpn_rule_twice))) =
     [(''tun0'', ''192.168.64.0/24''), (''tailscale0'', ''192.168.64.0/24'')] \<and>
   fst (switch_to_tailscale env_both_up the_monitor
          (snd (switch_to_tailscale env_both_up the_monitor openvpn_rule_twice))) = Inr True \<and>
   nat_postrouting
     (rstate (snd (switch_to_tailscale env_both_up the_monitor
                     (snd (switch_to_tailscale env_both_up the_monitor openvpn_rule_twice))))) =
     [(''tailscale0'', ''192.168.64.0/24'')]"
  by code_simp

text \<open>
  Claim C7, amended. In an unchanged environment, from a routing state whose policy
  table holds at most one default route and whose chain holds the masquerade rule of
  the other backend's interface at most once, calling a switch function a second time
  right after the first returns the same result and leaves the same routing state as the
  first call alone; so the second call adds no default route and no masquerade rule.
\<close>

theorem switch_twice_same_state:
  "length (filter is_default (table_usb_vpn (rstate w))) \<le> 1 \<and>
   tailscale_interface self \<noteq> openvpn_interface self \<longrightarrow>
     (count_list (nat_postrouting (rstate w)) (tailscale_interface self, usb_network self) \<le> 1
        \<longrightarrow>
        rstate (snd (switch_to_openvpn e self (snd (switch_to_openvpn e self w)))) =
          rstate (snd (switch_to_openvpn e self w)) \<and>
        fst (switch_to_openvpn e self (snd (switch_to_openvpn e self w))) =
          fst (switch_to_openvpn e self w)) \<and>
     (count_list (nat_postrouting (rstate w)) (openvpn_interface self, usb_network self) \<le> 1
        \<longrightarrow>
        rstate (snd (switch_to_tailscale e self (snd (switch_to_tailscale e self w)))) =
          rstate (snd (switch_to_tailscale e self w)) \<and>
        fst (switch_to_tailscale e self (snd (switch_to_tailscale e self w))) =
          fst (switch_to_tailscale e self w))"
  by (simp add: ov_effect ts_effect ov_idem ts_idem)

theorem switch_twice_same_state_witness:
  "rstate (snd (switch_to_openvpn env_both_up the_monitor
                  (snd (switch_to_openvpn env_both_up the_monitor on_tailscale)))) =
     rstate (snd (switch_to_openvpn env_both_up the_monitor on_tailscale)) \<and>
   rstate (snd (switch_to_tailscale env_both_up the_monitor
                  (snd (switch_to_tailscale env_both_up the_monitor on_tailscale)))) =
     rstate (snd (switch_to_tailscale env_both_up the_monitor on_tailscale))"
proof -
  have d: "length (filter is_default (table_usb_vpn (rstate on_tailscale))) \<le> 1"
    by (simp add: on_tailscale_def is_default_def)
  have i: "tailscale_interface the_monitor \<noteq> openvpn_interface the_monitor"
    by (simp add: the_monitor_def VPNMonitor_init_def)
  have a: "count_list (nat_postrouting (rstate on_tailscale))
             (tailscale_interface the_monitor, usb_network the_monitor) \<le> 1"
    by (simp add: on_tailscale_def)
  have b: "count_list (nat_postrouting (rstate on_tailscale))
             (openvpn_interface the_monitor, usb_network the_monitor) \<le> 1"
    by (simp add: on_tailscale_def)
  show ?thesis
    using d i a b
      switch_twice_same_state [where e = env_both_up and self = the_monitor
        and w = on_tailscale]
    by blast
qed

subsection \<open>The monitoring loop\<close>

lemma gcv_total: "get_current_vpn e self w = (r, w') \<Longrightarrow> \<exists>v. r = Inr v"
  using get_current_vpn_char [of e self w] by auto

lemma probe_total: "check_interface_connectivity e self i w = (r, w') \<Longrightarrow> \<exists>b. r = Inr b"
  using probe_char [of e self i w] by auto

lemma ov_total: "switch_to_openvpn e self w = (r, w') \<Longrightarrow> \<exists>b. r = Inr b"
  using ovD [of e self w r w'] by blast

lemma ts_total: "switch_to_tailscale e self w = (r, w') \<Longrightarrow> \<exists>b. r = Inr b"
  using tsD [of e self w r w'] by blast

lemma failover_total: "failover_logic e self cur ts ov w = (r, w') \<Longrightarrow> r = Inr ()"
  by (auto simp add: failover_logic_def split: if_splits prod.splits sum.splits
        dest!: ov_total ts_total)

lemma cycle_try_result: "fst (cycle_try e self w) = sleep e (check_interval self)"
  by (auto simp add: cycle_try_def split: prod.splits sum.splits
        dest!: gcv_total probe_total failover_total)




lemma iteration_continues:
  "sleep e (check_interval self) = Inr () \<Longrightarrow> fst (iteration e self w) = Continue"
  using cycle_try_result [of e self w]
  by (cases "cycle_try e self w") (auto simp add: iteration_def split: sum.splits)


lemma while_running_ending:
  "\<forall>ev\<in>set evs. sleep (ev_env ev) (check_interval self) = Inr () \<Longrightarrow>
     fst (while_running self evs w) =
       (if running self \<and> (\<forall>ev\<in>set evs. ev_signal ev = None) then Pending else Stopped)"
proof (induction evs arbitrary: self w)
  case Nil
  then show ?case by simp
next
  case (Cons ev evs)
  from Cons.prems have here: "sleep (ev_env ev) (check_interval self) = Inr ()"
    and later: "\<forall>ev\<in>set evs. sleep (ev_env ev) (check_interval self) = Inr ()"
    by simp_all
  obtain st w1 where it: "iteration (ev_env ev) self (outside_change (ev_outside ev) w) = (st, w1)"
    by fastforce
  with iteration_continues [OF here, of "outside_change (ev_outside ev) w"]
  have st: "st = Continue" by simp
  show ?case
  proof (cases "running self")
    case False
    then show ?thesis by simp
  next
    case True
    show ?thesis
    proof (cases "ev_signal ev")
      case None
      with True it st Cons.IH [OF later, of w1] show ?thesis by simp
    next
      case (Some signum)
      have "\<forall>ev\<in>set evs. sleep (ev_env ev) (check_interval (self\<lparr>running := False\<rparr>)) = Inr ()"
        using later by simp
      from Cons.IH [OF this] True it st Some show ?thesis
        by (simp add: signal_handler_def)
    qed
  qed
qed

lemma monitor_loop_ending:
  assumes "\<forall>ev\<in>set evs. sleep (ev_env ev) (check_interval self) = Inr ()"
  shows "fst (monitor_loop self evs w) =
           (if \<exists>ev\<in>set evs. ev_signal ev \<noteq> None then Stopped else Pending)"
proof -
  from assms
  have "\<forall>ev\<in>set evs. sleep (ev_env ev) (check_interval (self\<lparr>running := True\<rparr>)) = Inr ()"
    by simp
  from while_running_ending [OF this, of
         "log_with_timestamp Info ''VPN failover monitor started'' w"]
  show ?thesis
    by (cases "while_running (self\<lparr>running := True\<rparr>) evs
                 (log_with_timestamp Info ''VPN failover monitor started'' w)")
       (auto simp add: monitor_loop_def split: ending.splits if_splits)
qed







subsection \<open>The router configuration\<close>

lemma validate_addresses_ok:
  "validate_addresses lib cfg n = Inr u \<longleftrightarrow>
     (\<exists>a s t. IPv4Address lib (cfg_usb_ip cfg) = Some a \<and>
              IPv4Address lib (cfg_usb_dhcp_start cfg) = Some s \<and>
              IPv4Address lib (cfg_usb_dhcp_end cfg) = Some t \<and>
              in_network a n \<and> in_network s n \<and> in_network t n \<and> s < t)"
  by (auto simp add: validate_addresses_def split: option.splits)

lemma validate_addresses_error:
  "validate_addresses lib cfg n = Inl x \<Longrightarrow> \<exists>m. x = ValueError m"
  by (auto simp add: validate_addresses_def split: option.splits if_splits)

lemma validate_addresses_network:
  "validate_addresses lib (cfg\<lparr>cfg_usb_network := v\<rparr>) n = Inr u \<longleftrightarrow>
   validate_addresses lib cfg n = Inr u"
  by (simp add: validate_addresses_ok)

lemma validate_ok:
  "validate lib cfg = Inr cfg' \<longleftrightarrow>
     (\<exists>n. IPv4Network lib (cfg_usb_network cfg) = Some n \<and>
          validate_addresses lib cfg n = Inr () \<and>
          1 \<le> cfg_dashboard_port cfg \<and> cfg_dashboard_port cfg \<le> 65535 \<and>
          cfg' = cfg\<lparr>cfg_usb_network := str_network lib n\<rparr>)"
proof (cases "IPv4Network lib (cfg_usb_network cfg)")
  case None
  then show ?thesis by (simp add: validate_def)
next
  case (Some n)
  show ?thesis
  proof (cases "validate_addresses lib (cfg\<lparr>cfg_usb_network := str_network lib n\<rparr>) n")
    case (Inl x)
    then have "validate_addresses lib cfg n \<noteq> Inr ()"
      using validate_addresses_network [where lib = lib and cfg = cfg and v = "str_network lib n"
              and n = n and u = "()"] by simp
    with Some Inl show ?thesis by (cases x) (auto simp add: validate_def Let_def)
  next
    case (Inr u)
    then have "validate_addresses lib cfg n = Inr ()"
      using validate_addresses_network [where lib = lib and cfg = cfg and v = "str_network lib n"
              and n = n and u = "()"] by simp
    with Some Inr show ?thesis by (auto simp add: validate_def Let_def)
  qed
qed

lemma validate_error: "validate lib cfg = Inl x \<Longrightarrow> \<exists>m. x = ValueError m"
  by (auto simp add: validate_def Let_def split: option.splits sum.splits exn.splits if_splits
        dest: validate_addresses_error)

lemma validate_cases: "(\<exists>cfg'. validate lib cfg = Inr cfg') \<or> (\<exists>m. validate lib cfg = Inl (ValueError m))"
  by (cases "validate lib cfg") (auto dest: validate_error)

text \<open>
  Claim C9, as stated, at a concrete input. The default configuration passes
  validation at construction. Assigning 0 to its \<^verbatim>\<open>dashboard_port\<close> afterwards stores the
  value without any check, and the configuration is then one that \<^verbatim>\<open>validate\<close> refuses:
  a configuration that passed validation is not immutable. And the monitor, which
  takes no \<^verbatim>\<open>RouterConfig\<close> and checks none of its own parameters, starts and keeps running
  with a negative ping timeout and an empty test host.
\<close>

theorem validated_config_is_not_immutable:
  "post_init ipaddress_on_defaults default_config = Inr default_config \<and>
   setattr (Dashboard_port 0) default_config \<noteq> default_config \<and>
   cfg_dashboard_port (setattr (Dashboard_port 0) default_config) = 0 \<and>
   validate ipaddress_on_defaults (setattr (Dashboard_port 0) default_config) =
     Inl (ValueError ''Invalid dashboard port: 0'') \<and>
   fst (monitor_loop (VPNMonitor_init 30 (- 5) []) [quiet_event] on_tailscale) = Pending"
proof -
  have a: "post_init ipaddress_on_defaults default_config = Inr default_config"
    by (simp add: post_init_def validate_def validate_addresses_def ipaddress_on_defaults_def
          default_config_def in_network_def)
  have b: "setattr (Dashboard_port 0) default_config \<noteq> default_config"
    by (simp add: default_config_def)
  have c: "validate ipaddress_on_defaults (setattr (Dashboard_port 0) default_config) =
             Inl (ValueError ''Invalid dashboard port: 0'')"
    by (simp add: validate_def validate_addresses_def ipaddress_on_defaults_def
          default_config_def in_network_def show_int_def)
  have d: "\<forall>ev\<in>set [quiet_event].
             sleep (ev_env ev) (check_interval (VPNMonitor_init 30 (- 5) [])) = Inr ()"
    by (simp add: sleep_def VPNMonitor_init_def quiet_event_def env_both_down_def
          env_both_up_def)
  have e: "\<not> (\<exists>ev\<in>set [quiet_event]. ev_signal ev \<noteq> None)"
    by (simp add: quiet_event_def)
  from monitor_loop_ending [OF d, of on_tailscale] e
  have "fst (monitor_loop (VPNMonitor_init 30 (- 5) []) [quiet_event] on_tailscale) = Pending"
    by (simp del: set_simps)
  with a b c show ?thesis by simp
qed

text \<open>
  Claim C9, amended. Construction runs \<^verbatim>\<open>validate\<close>. It raises \<^verbatim>\<open>ValueError\<close>, so that no
  configuration comes into being, when the network does not parse, when one of the
  three addresses does not parse or lies outside the network, when the DHCP start is
  not below the DHCP end, or when the port is outside 1 to 65535. When none of these
  holds it returns the configuration with the network written back normalised. A
  configuration that has passed \<^verbatim>\<open>validate\<close> is left as it is by a later call of it, as
  long as the normalised network parses to the same network; nothing more is said
  about later assignments.
\<close>

theorem validate_refuses_invalid:
  "post_init lib cfg = validate lib cfg \<and>
   (IPv4Network lib (cfg_usb_network cfg) = None \<or>
    IPv4Address lib (cfg_usb_ip cfg) = None \<or>
    IPv4Address lib (cfg_usb_dhcp_start cfg) = None \<or>
    IPv4Address lib (cfg_usb_dhcp_end cfg) = None \<or>
    (\<exists>n a. IPv4Network lib (cfg_usb_network cfg) = Some n \<and>
           a \<in> {IPv4Address lib (cfg_usb_ip cfg), IPv4Address lib (cfg_usb_dhcp_start cfg),
                IPv4Address lib (cfg_usb_dhcp_end cfg)} \<and>
           (\<exists>v. a = Some v \<and> \<not> in_network v n)) \<or>
    (\<exists>s t. IPv4Address lib (cfg_usb_dhcp_start cfg) = Some s \<and>
           IPv4Address lib (cfg_usb_dhcp_end cfg) = Some t \<and> t \<le> s) \<or>
    cfg_dashboard_port cfg < 1 \<or> 65535 < cfg_dashboard_port cfg
    \<longrightarrow> (\<exists>m. post_init lib cfg = Inl (ValueError m))) \<and>
   (IPv4Network lib (cfg_usb_network cfg) = Some n \<and>
    IPv4Address lib (cfg_usb_ip cfg) = Some a \<and>
    IPv4Address lib (cfg_usb_dhcp_start cfg) = Some s \<and>
    IPv4Address lib (cfg_usb_dhcp_end cfg) = Some t \<and>
    in_network a n \<and> in_network s n \<and> in_network t n \<and> s < t \<and>
    1 \<le> cfg_dashboard_port cfg \<and> cfg_dashboard_port cfg \<le> 65535
    \<longrightarrow> post_init lib cfg = Inr (cfg\<lparr>cfg_usb_network := str_network lib n\<rparr>)) \<and>
   (validate lib cfg = Inr cfg' \<and>
    IPv4Network lib (cfg_usb_network cfg') = IPv4Network lib (cfg_usb_network cfg)
    \<longrightarrow> validate lib cfg' = Inr cfg')"
proof -
  have bad: "IPv4Network lib (cfg_usb_network cfg) = None \<or>
    IPv4Address lib (cfg_usb_ip cfg) = None \<or>
    IPv4Address lib (cfg_usb_dhcp_start cfg) = None \<or>
    IPv4Address lib (cfg_usb_dhcp_end cfg) = None \<or>
    (\<exists>n a. IPv4Network lib (cfg_usb_network cfg) = Some n \<and>
           a \<in> {IPv4Address lib (cfg_usb_ip cfg), IPv4Address lib (cfg_usb_dhcp_start cfg),
                IPv4Address lib (cfg_usb_dhcp_end cfg)} \<and>
           (\<exists>v. a = Some v \<and> \<not> in_network v n)) \<or>
    (\<exists>s t. IPv4Address lib (cfg_usb_dhcp_start cfg) = Some s \<and>
           IPv4Address lib (cfg_usb_dhcp_end cfg) = Some t \<and> t \<le> s) \<or>
    cfg_dashboard_port cfg < 1 \<or> 65535 < cfg_dashboard_port cfg
    \<Longrightarrow> \<exists>m. validate lib cfg = Inl (ValueError m)"
  proof -
    assume v: "IPv4Network lib (cfg_usb_network cfg) = None \<or>
      IPv4Address lib (cfg_usb_ip cfg) = None \<or>
      IPv4Address lib (cfg_usb_dhcp_start cfg) = None \<or>
      IPv4Address lib (cfg_usb_dhcp_end cfg) = None \<or>
      (\<exists>n a. IPv4Network lib (cfg_usb_network cfg) = Some n \<and>
             a \<in> {IPv4Address lib (cfg_usb_ip cfg), IPv4Address lib (cfg_usb_dhcp_start cfg),
                  IPv4Address lib (cfg_usb_dhcp_end cfg)} \<and>
             (\<exists>v. a = Some v \<and> \<not> in_network v n)) \<or>
      (\<exists>s t. IPv4Address lib (cfg_usb_dhcp_start cfg) = Some s \<and>
             IPv4Address lib (cfg_usb_dhcp_end cfg) = Some t \<and> t \<le> s) \<or>
      cfg_dashboard_port cfg < 1 \<or> 65535 < cfg_dashboard_port cfg"
    have "\<not> (\<exists>cfg'. validate lib cfg = Inr cfg')"
      using v by (auto simp add: validate_ok validate_addresses_ok)
    with validate_cases [of lib cfg] show ?thesis by blast
  qed
  have good: "IPv4Network lib (cfg_usb_network cfg) = Some n \<and>
    IPv4Address lib (cfg_usb_ip cfg) = Some a \<and>
    IPv4Address lib (cfg_usb_dhcp_start cfg) = Some s \<and>
    IPv4Address lib (cfg_usb_dhcp_end cfg) = Some t \<and>
    in_network a n \<and> in_network s n \<and> in_network t n \<and> s < t \<and>
    1 \<le> cfg_dashboard_port cfg \<and> cfg_dashboard_port cfg \<le> 65535
    \<Longrightarrow> validate lib cfg = Inr (cfg\<lparr>cfg_usb_network := str_network lib n\<rparr>)"
    by (simp add: validate_ok validate_addresses_ok)
  have again: "validate lib cfg = Inr cfg' \<and>
    IPv4Network lib (cfg_usb_network cfg') = IPv4Network lib (cfg_usb_network cfg)
    \<Longrightarrow> validate lib cfg' = Inr cfg'"
    by (auto simp add: validate_ok validate_addresses_ok)
  show ?thesis
    using bad good again by (simp add: post_init_def)
qed

theorem validate_refuses_invalid_witness:
  "post_init ipaddress_on_defaults default_config = Inr default_config \<and>
   validate ipaddress_on_defaults default_config = Inr default_config \<and>
   (\<exists>m. post_init ipaddress_on_defaults (default_config\<lparr>cfg_dashboard_port := 0\<rparr>) =
          Inl (ValueError m)) \<and>
   (\<exists>m. post_init ipaddress_on_defaults (default_config\<lparr>cfg_usb_ip := ''10.0.0.1''\<rparr>) =
          Inl (ValueError m)) \<and>
   (\<exists>m. post_init ipaddress_on_defaults (default_config\<lparr>cfg_usb_network := ''192.168.64/24''\<rparr>) =
          Inl (ValueError m))"
proof -
  have ok: "IPv4Network ipaddress_on_defaults (cfg_usb_network default_config) =
              Some (3232251904, 24) \<and>
            IPv4Address ipaddress_on_defaults (cfg_usb_ip default_config) = Some 3232251905 \<and>
            IPv4Address ipaddress_on_defaults (cfg_usb_dhcp_start default_config) =
              Some 3232251954 \<and>
            IPv4Address ipaddress_on_defaults (cfg_usb_dhcp_end default_config) =
              Some 3232252054 \<and>
            in_network 3232251905 (3232251904, 24) \<and> in_network 3232251954 (3232251904, 24) \<and>
            in_network 3232252054 (3232251904, 24) \<and> (3232251954 :: nat) < 3232252054 \<and>
            1 \<le> cfg_dashboard_port default_config \<and> cfg_dashboard_port default_config \<le> 65535"
    by (simp add: ipaddress_on_defaults_def default_config_def in_network_def)
  have same: "default_config\<lparr>cfg_usb_network :=
                 str_network ipaddress_on_defaults (3232251904, 24)\<rparr> = default_config"
    by (simp add: ipaddress_on_defaults_def default_config_def)
  have port: "cfg_dashboard_port (default_config\<lparr>cfg_dashboard_port := 0\<rparr>) < 1"
    by simp
  have ip: "IPv4Network ipaddress_on_defaults
              (cfg_usb_network (default_config\<lparr>cfg_usb_ip := ''10.0.0.1''\<rparr>)) =
              Some (3232251904, 24) \<and>
            IPv4Address ipaddress_on_defaults
              (cfg_usb_ip (default_config\<lparr>cfg_usb_ip := ''10.0.0.1''\<rparr>)) = Some 167772161 \<and>
            \<not> in_network 167772161 (3232251904, 24)"
    by (simp add: ipaddress_on_defaults_def default_config_def in_network_def)
  have net: "IPv4Network ipaddress_on_defaults
               (cfg_usb_network (default_config\<lparr>cfg_usb_network := ''192.168.64/24''\<rparr>)) = None"
    by (simp add: ipaddress_on_defaults_def)
  have "post_init ipaddress_on_defaults default_config =
          Inr (default_config\<lparr>cfg_usb_network :=
                 str_network ipaddress_on_defaults (3232251904, 24)\<rparr>)"
    using ok
      validate_refuses_invalid [where lib = ipaddress_on_defaults and cfg = default_config
        and n = "(3232251904, 24)" and a = 3232251905 and s = 3232251954 and t = 3232252054]
    by blast
  then have p1: "post_init ipaddress_on_defaults default_config = Inr default_config"
    using same by simp
  then have p2: "validate ipaddress_on_defaults default_config = Inr default_config"
    by (simp add: post_init_def)
  have p3: "\<exists>m. post_init ipaddress_on_defaults (default_config\<lparr>cfg_dashboard_port := 0\<rparr>) =
               Inl (ValueError m)"
    using port
      validate_refuses_invalid [where lib = ipaddress_on_defaults
        and cfg = "default_config\<lparr>cfg_dashboard_port := 0\<rparr>"]
    by blast
  have p4: "\<exists>m. post_init ipaddress_on_defaults (default_config\<lparr>cfg_usb_ip := ''10.0.0.1''\<rparr>) =
               Inl (ValueError m)"
    using ip
      validate_refuses_invalid [where lib = ipaddress_on_defaults
        and cfg = "default_config\<lparr>cfg_usb_ip := ''10.0.0.1''\<rparr>"]
    by blast
  have p5: "\<exists>m. post_init ipaddress_on_defaults
                   (default_config\<lparr>cfg_usb_network := ''192.168.64/24''\<rparr>) =
               Inl (ValueError m)"
    using net
      validate_refuses_invalid [where lib = ipaddress_on_defaults
        and cfg = "default_config\<lparr>cfg_usb_network := ''192.168.64/24''\<rparr>"]
    by blast
  show ?thesis using p1 p2 p3 p4 p5 by blast
qed

subsection \<open>The failover decision\<close>

lemma cycle_try_world:
  assumes c: "fst (get_current_vpn e self w) = Inr cur"
    and t: "fst (check_interface_connectivity e self (tailscale_interface self) w) = Inr tsu"
    and v: "fst (check_interface_connectivity e self (openvpn_interface self) w) = Inr ovu"
  shows "snd (cycle_try e self w) =
           snd (failover_logic e self cur tsu ovu
                  (snd (check_interface_connectivity e self (openvpn_interface self)
                     (snd (check_interface_connectivity e self (tailscale_interface self)
                        (snd (get_current_vpn e self w)))))))"
proof -
  obtain w1 where g: "get_current_vpn e self w = (Inr cur, w1)"
    using c by (cases "get_current_vpn e self w") auto
  have "fst (check_interface_connectivity e self (tailscale_interface self) w1) = Inr tsu"
    using t by (simp add: probe_char)
  then obtain w2 where
    p: "check_interface_connectivity e self (tailscale_interface self) w1 = (Inr tsu, w2)"
    by (cases "check_interface_connectivity e self (tailscale_interface self) w1") auto
  have "fst (check_interface_connectivity e self (openvpn_interface self) w2) = Inr ovu"
    using v by (simp add: probe_char)
  then obtain w3 where
    q: "check_interface_connectivity e self (openvpn_interface self) w2 = (Inr ovu, w3)"
    by (cases "check_interface_connectivity e self (openvpn_interface self) w2") auto
  obtain r w4 where f: "failover_logic e self cur tsu ovu w3 = (r, w4)"
    by fastforce
  from failover_total [OF f] have r: "r = Inr ()" .
  show ?thesis
    by (simp add: cycle_try_def g p q f r)
qed

lemma reads_both_down:
  "snd (check_interface_connectivity env_both_down the_monitor ''tun0''
     (snd (check_interface_connectivity env_both_down the_monitor ''tailscale0''
        (snd (get_current_vpn env_both_down the_monitor w))))) =
   w\<lparr>journal := journal w @
        [(IpRouteShowTable, rstate w),
         (IpLinkShow ''tailscale0'', rstate w), (IpAddrShow ''tailscale0'', rstate w),
         (Ping ''tailscale0'' 5 ''1.1.1.1'', rstate w),
         (IpLinkShow ''tun0'', rstate w), (IpAddrShow ''tun0'', rstate w),
         (Ping ''tun0'' 5 ''1.1.1.1'', rstate w)],
      logs := logs w @
        [(Debug, ''Running command: ip route show table usb_vpn''),
         (Debug, ''Running command: ip link show tailscale0''),
         (Debug, ''Running command: ip addr show tailscale0''),
         (Debug, ''Running command: ping -I tailscale0 -c 1 -W 5 1.1.1.1''),
         (Debug, ''Running command: ip link show tun0''),
         (Debug, ''Running command: ip addr show tun0''),
         (Debug, ''Running command: ping -I tun0 -c 1 -W 5 1.1.1.1'')]\<rparr>"
  by (simp add: check_interface_connectivity_def check_interface_exists_def get_current_vpn_def
        run_command_def os_run_def log_line_def Let_def env_both_down_def env_both_up_def
        the_monitor_def VPNMonitor_init_def show_int_def)


text \<open>
  The other eleven rows of the table of section 4.4, as far as the action goes: where
  the table switches, \<^verbatim>\<open>monitor_loop\<close> logs one line and calls that switch function; where
  the table does nothing, the world is left as it is; where the table only logs, one
  line of that level is logged.
\<close>

lemma failover_logic_other_rows:
  "(fst (spec_transition cur ts ov) = SwitchTo Tailscale \<longrightarrow>
      (\<exists>l m. snd (failover_logic e self cur ts ov w) =
               snd (switch_to_tailscale e self (log_with_timestamp l m w)))) \<and>
   (fst (spec_transition cur ts ov) = SwitchTo Openvpn \<longrightarrow>
      (\<exists>l m. snd (failover_logic e self cur ts ov w) =
               snd (switch_to_openvpn e self (log_with_timestamp l m w)))) \<and>
   (fst (spec_transition cur ts ov) = NoAction \<longrightarrow> snd (failover_logic e self cur ts ov w) = w) \<and>
   (fst (spec_transition cur ts ov) = LogOnly l \<and> \<not> (cur = Tailscale \<and> \<not> ts \<and> \<not> ov) \<longrightarrow>
      (\<exists>m. snd (failover_logic e self cur ts ov w) = log_with_timestamp l m w))"
proof -
  have a: "\<And>l m. snd (case switch_to_tailscale e self (log_with_timestamp l m w) of
                        (Inl x, w1) \<Rightarrow> (Inl x, w1) | (Inr b, w1) \<Rightarrow> (Inr (), w1)) =
                 snd (switch_to_tailscale e self (log_with_timestamp l m w))"
    by (simp split: prod.splits sum.splits)
  have b: "\<And>l m. snd (case switch_to_openvpn e self (log_with_timestamp l m w) of
                        (Inl x, w1) \<Rightarrow> (Inl x, w1) | (Inr b, w1) \<Rightarrow> (Inr (), w1)) =
                 snd (switch_to_openvpn e self (log_with_timestamp l m w))"
    by (simp split: prod.splits sum.splits)
  show ?thesis
    by (cases cur; cases ts; cases ov) (auto simp add: failover_logic_def a b)
qed

text \<open>
  Claim C1. The row of the table for the state ON_PRIMARY with both backends
  unreachable asks for an error to be logged. In \<^verbatim>\<open>monitor_loop\<close> the branch for
  \<^verbatim>\<open>'tailscale'\<close> has no such case: with both samples false the failover logic returns
  the world it was given, while the branch for \<^verbatim>\<open>'openvpn'\<close> logs an error and the branch
  for \<^verbatim>\<open>'none'\<close> logs a warning. A whole cycle that starts on Tailscale with neither
  tunnel reaching the test host runs its seven read commands, prints their seven debug
  lines and nothing else, and leaves the routing state as it was.
\<close>

theorem on_primary_both_down_logs_nothing:
  "fst (spec_transition Tailscale False False) = LogOnly Error \<and>
   failover_logic e self Tailscale False False w = (Inr (), w) \<and>
   failover_logic e self Openvpn False False w =
     (Inr (), log_with_timestamp Error
                ''WARNING: OpenVPN is down and Tailscale unavailable!'' w) \<and>
   failover_logic e self NoVpn False False w =
     (Inr (), log_with_timestamp Warn ''WARNING: No VPN connections available!'' w) \<and>
   fst (get_current_vpn env_both_down the_monitor on_tailscale) = Inr Tailscale \<and>
   fst (check_interface_connectivity env_both_down the_monitor ''tailscale0'' on_tailscale) =
     Inr False \<and>
   fst (check_interface_connectivity env_both_down the_monitor ''tun0'' on_tailscale) =
     Inr False \<and>
   cycle_try env_both_down the_monitor on_tailscale =
     (Inr (),
      on_tailscale
        \<lparr>journal :=
           [(IpRouteShowTable, rstate on_tailscale),
            (IpLinkShow ''tailscale0'', rstate on_tailscale),
            (IpAddrShow ''tailscale0'', rstate on_tailscale),
            (Ping ''tailscale0'' 5 ''1.1.1.1'', rstate on_tailscale),
            (IpLinkShow ''tun0'', rstate on_tailscale),
            (IpAddrShow ''tun0'', rstate on_tailscale),
            (Ping ''tun0'' 5 ''1.1.1.1'', rstate on_tailscale)],
         logs :=
           [(Debug, ''Running command: ip route show table usb_vpn''),
            (Debug, ''Running command: ip link show tailscale0''),
            (Debug, ''Running command: ip addr show tailscale0''),
            (Debug, ''Running command: ping -I tailscale0 -c 1 -W 5 1.1.1.1''),
            (Debug, ''Running command: ip link show tun0''),
            (Debug, ''Running command: ip addr show tun0''),
            (Debug, ''Running command: ping -I tun0 -c 1 -W 5 1.1.1.1'')]\<rparr>)"
proof -
  have m: "tailscale_interface the_monitor = ''tailscale0''"
    "openvpn_interface the_monitor = ''tun0''" "check_interval the_monitor = 30"
    by (simp_all add: the_monitor_def VPNMonitor_init_def)
  have r: "failover_logic e self Tailscale False False w = (Inr (), w)"
    "failover_logic e self Openvpn False False w =
       (Inr (), log_with_timestamp Error
                  ''WARNING: OpenVPN is down and Tailscale unavailable!'' w)"
    "failover_logic e self NoVpn False False w =
       (Inr (), log_with_timestamp Warn ''WARNING: No VPN connections available!'' w)"
    by (simp_all add: failover_logic_def)
  have g: "fst (get_current_vpn env_both_down the_monitor on_tailscale) = Inr Tailscale"
    by (simp add: get_current_vpn_table env_both_down_def env_both_up_def on_tailscale_def
          vpn_of_listing_def render_table_def render_route_def newline_def m)
  have p: "fst (check_interface_connectivity env_both_down the_monitor ''tailscale0''
                  on_tailscale) = Inr False"
    "fst (check_interface_connectivity env_both_down the_monitor ''tun0'' on_tailscale) =
       Inr False"
    by (simp_all add: probe_char env_both_down_def env_both_up_def)
  have f: "failover_logic env_both_down the_monitor Tailscale False False w' = (Inr (), w')"
    for w'
    by (simp add: failover_logic_def)
  have l: "journal on_tailscale = []" "logs on_tailscale = []"
    by (simp_all add: on_tailscale_def)
  have s: "snd (cycle_try env_both_down the_monitor on_tailscale) =
             snd (check_interface_connectivity env_both_down the_monitor ''tun0''
               (snd (check_interface_connectivity env_both_down the_monitor ''tailscale0''
                  (snd (get_current_vpn env_both_down the_monitor on_tailscale)))))"
    using cycle_try_world [of env_both_down the_monitor on_tailscale Tailscale False False]
      g p
    by (simp add: m f)
  have c: "fst (cycle_try env_both_down the_monitor on_tailscale) = Inr ()"
    by (simp add: cycle_try_result sleep_def m env_both_down_def env_both_up_def)
  have "cycle_try env_both_down the_monitor on_tailscale =
          (fst (cycle_try env_both_down the_monitor on_tailscale),
           snd (cycle_try env_both_down the_monitor on_tailscale))"
    by simp
  with c s reads_both_down [of on_tailscale] l r g p show ?thesis
    by (simp del: prod.collapse)
qed

subsection \<open>What a cycle reads and what it depends on\<close>

text \<open>
  The lines printed by the commands are debug and error lines. A function of the monitor
  run with more history in front of the journal and the log does the same, with that
  history in front of what it leaves.
\<close>

lemma run_command_logsD:
  "run_command e c k w = (r, w') \<Longrightarrow> \<exists>ls. logs w' = logs w @ ls \<and> (\<forall>x\<in>set ls. plain x)"
  by (auto simp add: run_command_def log_line_def Let_def plain_def
        split: prod.splits outcome.splits if_splits)

lemma exists_logsD:
  "check_interface_exists e i w = (r, w') \<Longrightarrow> \<exists>ls. logs w' = logs w @ ls \<and> (\<forall>x\<in>set ls. plain x)"
  by (auto simp add: check_interface_exists_def split: prod.splits sum.splits if_splits
        dest!: run_command_logsD)

lemma probe_logsD:
  "check_interface_connectivity e self i w = (r, w') \<Longrightarrow>
     \<exists>ls. logs w' = logs w @ ls \<and> (\<forall>x\<in>set ls. plain x)"
  by (auto simp add: check_interface_connectivity_def
        split: prod.splits sum.splits if_splits bool.splits
        dest!: run_command_logsD exists_logsD)

lemma gcv_logsD:
  "get_current_vpn e self w = (r, w') \<Longrightarrow> \<exists>ls. logs w' = logs w @ ls \<and> (\<forall>x\<in>set ls. plain x)"
  by (auto simp add: get_current_vpn_def split: prod.splits sum.splits if_splits
        dest!: run_command_logsD)

lemma ensure_logsD:
  "ensure_nat_rule e i n w = (r, w') \<Longrightarrow> \<exists>ls. logs w' = logs w @ ls \<and> (\<forall>x\<in>set ls. plain x)"
  by (auto simp add: ensure_nat_rule_def split: prod.splits sum.splits exn.splits
        dest!: run_command_logsD)

lemma ov_try_logsD:
  "switch_to_openvpn_try e self w = (r, w') \<Longrightarrow>
     \<exists>ls. logs w' = logs w @ ls \<and> (\<forall>x\<in>set ls. plain x)"
  by (auto simp add: switch_to_openvpn_try_def split: prod.splits sum.splits
        dest!: run_command_logsD ensure_logsD)

lemma ts_try_logsD:
  "switch_to_tailscale_try e self w = (r, w') \<Longrightarrow>
     \<exists>ls. logs w' = logs w @ ls \<and> (\<forall>x\<in>set ls. plain x)"
  by (auto simp add: switch_to_tailscale_try_def add_default_gateway split: prod.splits sum.splits
        dest!: run_command_logsD ensure_logsD)

lemma ov_logsD:
  "switch_to_openvpn e self w = (r, w') \<Longrightarrow>
     \<exists>ls. logs w' = logs w @ (Info, ''Switching USB routing to OpenVPN...'') # ls \<and>
          (\<forall>x\<in>set ls. plain x \<or> x = (Info, ''Switched to OpenVPN successfully''))"
  by (auto simp add: switch_to_openvpn_def log_with_timestamp_def log_line_def plain_def
        split: prod.splits sum.splits if_splits
        dest!: ov_try_logsD)

lemma ts_logsD:
  "switch_to_tailscale e self w = (r, w') \<Longrightarrow>
     \<exists>ls. logs w' = logs w @ (Info, ''Switching USB routing to Tailscale...'') # ls \<and>
          (\<forall>x\<in>set ls. plain x \<or> x = (Info, ''Switched to Tailscale successfully''))"
  by (auto simp add: switch_to_tailscale_def log_with_timestamp_def log_line_def plain_def
        split: prod.splits sum.splits if_splits
        dest!: ts_try_logsD)

lemma with_history_rstate: "rstate (with_history j h w) = rstate w"
  and with_history_journal: "journal (with_history j h w) = j @ journal w"
  and with_history_logs: "logs (with_history j h w) = h @ logs w"
  by (simp_all add: with_history_def)

lemma with_history_strip: "with_history (journal w) (logs w) (w\<lparr>journal := [], logs := []\<rparr>) = w"
  by (simp add: with_history_def)

lemma log_frame:
  "log_with_timestamp l m (with_history j h w) = with_history j h (log_with_timestamp l m w)"
  by (simp add: log_with_timestamp_def log_line_def with_history_def)

lemma run_command_frame:
  "run_command e c k (with_history j h w) =
     (fst (run_command e c k w), with_history j h (snd (run_command e c k w)))"
  by (cases "os_run e c (rstate w)"; cases "fst (os_run e c (rstate w))")
     (auto simp add: run_command_def log_line_def with_history_def Let_def)

lemma exists_frame:
  "check_interface_exists e i (with_history j h w) =
     (fst (check_interface_exists e i w), with_history j h (snd (check_interface_exists e i w)))"
  by (simp add: check_interface_exists_def run_command_frame split_beta
        split: sum.splits)

lemma probe_frame:
  "check_interface_connectivity e self i (with_history j h w) =
     (fst (check_interface_connectivity e self i w),
      with_history j h (snd (check_interface_connectivity e self i w)))"
  by (simp add: check_interface_connectivity_def exists_frame run_command_frame
        split_beta split: sum.splits bool.splits if_splits)

lemma gcv_frame:
  "get_current_vpn e self (with_history j h w) =
     (fst (get_current_vpn e self w), with_history j h (snd (get_current_vpn e self w)))"
  by (simp add: get_current_vpn_def run_command_frame split_beta
        split: sum.splits)

lemma ensure_frame:
  "ensure_nat_rule e i n (with_history j h w) =
     (fst (ensure_nat_rule e i n w), with_history j h (snd (ensure_nat_rule e i n w)))"
  by (simp add: ensure_nat_rule_def run_command_frame split_beta
        split: sum.splits exn.splits)

lemma ov_try_frame:
  "switch_to_openvpn_try e self (with_history j h w) =
     (fst (switch_to_openvpn_try e self w),
      with_history j h (snd (switch_to_openvpn_try e self w)))"
  by (simp add: switch_to_openvpn_try_def run_command_frame ensure_frame
        split_beta split: sum.splits)

lemma ts_try_frame:
  "switch_to_tailscale_try e self (with_history j h w) =
     (fst (switch_to_tailscale_try e self w),
      with_history j h (snd (switch_to_tailscale_try e self w)))"
  by (simp add: switch_to_tailscale_try_def add_default_gateway run_command_frame ensure_frame
        split_beta split: sum.splits)

lemma ov_frame:
  "switch_to_openvpn e self (with_history j h w) =
     (fst (switch_to_openvpn e self w), with_history j h (snd (switch_to_openvpn e self w)))"
  by (simp add: switch_to_openvpn_def log_frame ov_try_frame split_beta
        split: sum.splits)

lemma ts_frame:
  "switch_to_tailscale e self (with_history j h w) =
     (fst (switch_to_tailscale e self w), with_history j h (snd (switch_to_tailscale e self w)))"
  by (simp add: switch_to_tailscale_def log_frame ts_try_frame split_beta
        split: sum.splits)

lemma failover_frame:
  "failover_logic e self cur ts ov (with_history j h w) =
     (fst (failover_logic e self cur ts ov w),
      with_history j h (snd (failover_logic e self cur ts ov w)))"
  by (simp add: failover_logic_def log_frame ov_frame ts_frame split_beta
        split: sum.splits)

lemma cycle_frame:
  "cycle_try e self (with_history j h w) =
     (fst (cycle_try e self w), with_history j h (snd (cycle_try e self w)))"
  by (simp add: cycle_try_def gcv_frame probe_frame failover_frame split_beta
        split: sum.splits)


lemma strip_equal:
  "rstate w = rstate w2 \<Longrightarrow>
     w\<lparr>journal := [], logs := []\<rparr> = (w2\<lparr>journal := [], logs := []\<rparr> :: world)"
  by (cases w; cases w2) simp

lemma cycle_unframed:
  "cycle_try e self w =
     (fst (cycle_try e self (w\<lparr>journal := [], logs := []\<rparr>)),
      with_history (journal w) (logs w) (snd (cycle_try e self (w\<lparr>journal := [], logs := []\<rparr>))))"
  using cycle_frame [of e self "journal w" "logs w" "w\<lparr>journal := [], logs := []\<rparr>"]
  by (simp add: with_history_strip)

lemma cycle_history:
  assumes "rstate w = rstate w2"
  shows "fst (cycle_try e self w) = fst (cycle_try e self w2) \<and>
         rstate (snd (cycle_try e self w)) = rstate (snd (cycle_try e self w2)) \<and>
         issued w (snd (cycle_try e self w)) = issued w2 (snd (cycle_try e self w2)) \<and>
         printed w (snd (cycle_try e self w)) = printed w2 (snd (cycle_try e self w2))"
  using strip_equal [OF assms]
  by (simp add: cycle_unframed [of e self w] cycle_unframed [of e self w2] issued_def printed_def
        with_history_rstate with_history_journal with_history_logs)

lemma probe_journal:
  "\<exists>cs. journal (snd (check_interface_connectivity e self i w)) = journal w @ cs"
  using probe_frame [of e self i "journal w" "logs w" "w\<lparr>journal := [], logs := []\<rparr>"]
  by (simp add: with_history_strip with_history_journal)

lemma failover_journal:
  "\<exists>cs. journal (snd (failover_logic e self cur ts ov w)) = journal w @ cs"
  using failover_frame [of e self cur ts ov "journal w" "logs w" "w\<lparr>journal := [], logs := []\<rparr>"]
  by (simp add: with_history_strip with_history_journal)

lemma gcv_journal:
  "journal (snd (get_current_vpn e self w)) =
     journal w @ [(IpRouteShowTable, snd (os_run e IpRouteShowTable (rstate w)))]"
  by (simp add: get_current_vpn_def split_beta run_command_journal split: sum.splits)

lemma cycle_journal:
  "\<exists>cs. journal (snd (cycle_try e self w)) =
          journal w @ (IpRouteShowTable, snd (os_run e IpRouteShowTable (rstate w))) # cs"
proof -
  obtain cur where c: "fst (get_current_vpn e self w) = Inr cur"
    by (simp add: get_current_vpn_char)
  obtain tsu where t:
    "fst (check_interface_connectivity e self (tailscale_interface self) w) = Inr tsu"
    by (simp add: probe_char)
  obtain ovu where v:
    "fst (check_interface_connectivity e self (openvpn_interface self) w) = Inr ovu"
    by (simp add: probe_char)
  obtain a where a:
    "journal (snd (check_interface_connectivity e self (tailscale_interface self)
                     (snd (get_current_vpn e self w)))) =
       journal (snd (get_current_vpn e self w)) @ a"
    using probe_journal by blast
  obtain b where b:
    "journal (snd (check_interface_connectivity e self (openvpn_interface self)
                (snd (check_interface_connectivity e self (tailscale_interface self)
                     (snd (get_current_vpn e self w)))))) =
       journal (snd (check_interface_connectivity e self (tailscale_interface self)
                     (snd (get_current_vpn e self w)))) @ b"
    using probe_journal by blast
  obtain d where d:
    "journal (snd (failover_logic e self cur tsu ovu
        (snd (check_interface_connectivity e self (openvpn_interface self)
                (snd (check_interface_connectivity e self (tailscale_interface self)
                     (snd (get_current_vpn e self w)))))))) =
       journal (snd (check_interface_connectivity e self (openvpn_interface self)
                (snd (check_interface_connectivity e self (tailscale_interface self)
                     (snd (get_current_vpn e self w)))))) @ d"
    using failover_journal by blast
  show ?thesis
    by (simp add: cycle_try_world [OF c t v] a b d gcv_journal)
qed

lemma iteration_journal:
  "journal (snd (iteration e self w)) = journal (snd (cycle_try e self w))"
  by (cases "cycle_try e self w")
     (auto simp add: iteration_def Let_def log_journal split: sum.splits exn.splits)

lemma outside_change_journal: "journal (outside_change c w) = journal w"
  by (simp add: outside_change_def split: option.splits)

lemma while_running_journal:
  "\<exists>cs. journal (snd (snd (while_running self evs w))) = journal w @ cs"
proof (induction evs arbitrary: self w)
  case Nil
  then show ?case by simp
next
  case (Cons ev evs)
  obtain st w1 where it: "iteration (ev_env ev) self (outside_change (ev_outside ev) w) = (st, w1)"
    by fastforce
  from cycle_journal [of "ev_env ev" self "outside_change (ev_outside ev) w"]
    iteration_journal [of "ev_env ev" self "outside_change (ev_outside ev) w"] it
  obtain cs where j: "journal w1 = journal w @ cs"
    by (auto simp add: outside_change_journal)
  from Cons.IH [of self w1] j
  have a: "\<exists>cs. journal (snd (snd (while_running self evs w1))) = journal w @ cs"
    by auto
  have "\<exists>cs. journal (snd (snd (while_running (self\<lparr>running := False\<rparr>) evs (log_line l m w1)))) =
               journal w @ cs" for l m
    using Cons.IH [of "self\<lparr>running := False\<rparr>" "log_line l m w1"] j
    by (auto simp add: log_line_def)
  with a j it show ?case
    by (cases st; cases "ev_signal ev") (auto simp add: signal_handler_def)
qed

lemma monitor_loop_journal:
  "\<exists>cs. journal (snd (snd (monitor_loop self (ev # evs) w))) =
          journal w @
          (IpRouteShowTable,
           snd (os_run (ev_env ev) IpRouteShowTable
                  (rstate (outside_change (ev_outside ev) w)))) # cs"
proof -
  let ?self = "self\<lparr>running := True\<rparr>"
  let ?w = "log_with_timestamp Info ''VPN failover monitor started'' w"
  obtain st w1 where it:
    "iteration (ev_env ev) ?self (outside_change (ev_outside ev) ?w) = (st, w1)"
    by fastforce
  have r: "rstate (outside_change (ev_outside ev) ?w) = rstate (outside_change (ev_outside ev) w)"
    by (simp add: outside_change_def log_rstate split: option.splits)
  from cycle_journal [of "ev_env ev" ?self "outside_change (ev_outside ev) ?w"]
    iteration_journal [of "ev_env ev" ?self "outside_change (ev_outside ev) ?w"] it
  obtain cs where j:
    "journal w1 = journal w @
       (IpRouteShowTable,
        snd (os_run (ev_env ev) IpRouteShowTable (rstate (outside_change (ev_outside ev) w)))) # cs"
    by (auto simp add: outside_change_journal log_journal r)
  have k: "\<exists>ds. journal (snd (snd (while_running s evs (log_line l m w1)))) = journal w1 @ ds"
    for s l m
    using while_running_journal [of s evs "log_line l m w1"] by (simp add: log_line_def)
  have "\<exists>ds. journal (snd (snd (while_running ?self (ev # evs) ?w))) = journal w1 @ ds"
    using it while_running_journal [of ?self evs w1] k
    by (cases st; cases "ev_signal ev") (auto simp add: signal_handler_def)
  then obtain ds where
    "journal (snd (snd (while_running ?self (ev # evs) ?w))) = journal w1 @ ds" by blast
  then have "journal (snd (snd (monitor_loop self (ev # evs) w))) = journal w1 @ ds"
    by (cases "while_running ?self (ev # evs) ?w"; cases "fst (while_running ?self (ev # evs) ?w)")
       (auto simp add: monitor_loop_def log_journal simp del: while_running.simps)
  with j show ?thesis by simp
qed


lemma ov_markers:
  assumes "switch_to_openvpn e self w = (r, w')"
  shows "\<exists>ls. logs w' = logs w @ (Info, ''Switching USB routing to OpenVPN...'') # ls \<and>
           (Info, ''Switching USB routing to Tailscale...'') \<notin> set ls \<and>
           (Info, ''Switching USB routing to OpenVPN...'') \<notin> set ls"
proof -
  from ov_logsD [OF assms] obtain ls where
    l: "logs w' = logs w @ (Info, ''Switching USB routing to OpenVPN...'') # ls" and
    p: "\<forall>x\<in>set ls. plain x \<or> x = (Info, ''Switched to OpenVPN successfully'')"
    by blast
  have "(Info, m) \<in> set ls \<Longrightarrow> m = ''Switched to OpenVPN successfully''" for m
  proof -
    assume "(Info, m) \<in> set ls"
    with p have "plain (Info, m) \<or> (Info, m) = (Info, ''Switched to OpenVPN successfully'')"
      by blast
    then show ?thesis by (simp add: plain_def)
  qed
  from this [of "''Switching USB routing to Tailscale...''"]
    this [of "''Switching USB routing to OpenVPN...''"] l
  show ?thesis by auto
qed

lemma ts_markers:
  assumes "switch_to_tailscale e self w = (r, w')"
  shows "\<exists>ls. logs w' = logs w @ (Info, ''Switching USB routing to Tailscale...'') # ls \<and>
           (Info, ''Switching USB routing to Tailscale...'') \<notin> set ls \<and>
           (Info, ''Switching USB routing to OpenVPN...'') \<notin> set ls"
proof -
  from ts_logsD [OF assms] obtain ls where
    l: "logs w' = logs w @ (Info, ''Switching USB routing to Tailscale...'') # ls" and
    p: "\<forall>x\<in>set ls. plain x \<or> x = (Info, ''Switched to Tailscale successfully'')"
    by blast
  have "(Info, m) \<in> set ls \<Longrightarrow> m = ''Switched to Tailscale successfully''" for m
  proof -
    assume "(Info, m) \<in> set ls"
    with p have "plain (Info, m) \<or> (Info, m) = (Info, ''Switched to Tailscale successfully'')"
      by blast
    then show ?thesis by (simp add: plain_def)
  qed
  from this [of "''Switching USB routing to Tailscale...''"]
    this [of "''Switching USB routing to OpenVPN...''"] l
  show ?thesis by auto
qed

lemma failover_logsD:
  "failover_logic e self cur ts ov w = (r, w') \<Longrightarrow>
     \<exists>ls. logs w' = logs w @ ls \<and>
       ((Info, ''Switching USB routing to Tailscale...'') \<in> set ls \<longleftrightarrow> cur \<noteq> Tailscale \<and> ts) \<and>
       ((Info, ''Switching USB routing to OpenVPN...'') \<in> set ls \<longleftrightarrow>
          cur \<noteq> Openvpn \<and> \<not> ts \<and> ov)"
  by (cases cur; cases ts; cases ov)
     (auto simp add: failover_logic_def log_logs log_with_timestamp_def log_line_def
        split: prod.splits sum.splits dest!: ov_markers ts_markers)

lemma cycle_logs:
  assumes c: "fst (get_current_vpn e self w) = Inr cur"
    and t: "fst (check_interface_connectivity e self (tailscale_interface self) w) = Inr tsu"
    and v: "fst (check_interface_connectivity e self (openvpn_interface self) w) = Inr ovu"
  shows "\<exists>ls. logs (snd (cycle_try e self w)) = logs w @ ls \<and>
           ((Info, ''Switching USB routing to Tailscale...'') \<in> set ls \<longleftrightarrow>
              cur \<noteq> Tailscale \<and> tsu) \<and>
           ((Info, ''Switching USB routing to OpenVPN...'') \<in> set ls \<longleftrightarrow>
              cur \<noteq> Openvpn \<and> \<not> tsu \<and> ovu)"
proof -
  let ?w1 = "snd (get_current_vpn e self w)"
  let ?w2 = "snd (check_interface_connectivity e self (tailscale_interface self) ?w1)"
  let ?w3 = "snd (check_interface_connectivity e self (openvpn_interface self) ?w2)"
  let ?w4 = "snd (failover_logic e self cur tsu ovu ?w3)"
  from gcv_logsD [OF surjective_pairing, of e self w]
  obtain l1 where l1: "logs ?w1 = logs w @ l1" "\<forall>x\<in>set l1. plain x" by blast
  from probe_logsD [OF surjective_pairing, of e self "tailscale_interface self" ?w1]
  obtain l2 where l2: "logs ?w2 = logs ?w1 @ l2" "\<forall>x\<in>set l2. plain x" by blast
  from probe_logsD [OF surjective_pairing, of e self "openvpn_interface self" ?w2]
  obtain l3 where l3: "logs ?w3 = logs ?w2 @ l3" "\<forall>x\<in>set l3. plain x" by blast
  from failover_logsD [OF surjective_pairing, of e self cur tsu ovu ?w3]
  obtain l4 where l4: "logs ?w4 = logs ?w3 @ l4"
    "(Info, ''Switching USB routing to Tailscale...'') \<in> set l4 \<longleftrightarrow> cur \<noteq> Tailscale \<and> tsu"
    "(Info, ''Switching USB routing to OpenVPN...'') \<in> set l4 \<longleftrightarrow> cur \<noteq> Openvpn \<and> \<not> tsu \<and> ovu"
    by blast
  have p: "\<not> plain (Info, m)" for m by (simp add: plain_def)
  have n: "(Info, m) \<notin> set l1 \<and> (Info, m) \<notin> set l2 \<and> (Info, m) \<notin> set l3" for m
    using l1(2) l2(2) l3(2) p [of m] by blast
  have "logs (snd (cycle_try e self w)) = logs w @ (l1 @ l2 @ l3 @ l4)"
    by (simp add: cycle_try_world [OF c t v] l1(1) l2(1) l3(1) l4(1))
  moreover have "(Info, m) \<in> set (l1 @ l2 @ l3 @ l4) \<longleftrightarrow> (Info, m) \<in> set l4" for m
    using n [of m] by simp
  ultimately show ?thesis
    using l4(2) l4(3) by blast
qed

lemma cycle_printed:
  assumes c: "fst (get_current_vpn e self w) = Inr cur"
    and t: "fst (check_interface_connectivity e self (tailscale_interface self) w) = Inr tsu"
    and v: "fst (check_interface_connectivity e self (openvpn_interface self) w) = Inr ovu"
  shows "((Info, ''Switching USB routing to Tailscale...'')
            \<in> set (printed w (snd (cycle_try e self w))) \<longleftrightarrow> cur \<noteq> Tailscale \<and> tsu) \<and>
         ((Info, ''Switching USB routing to OpenVPN...'')
            \<in> set (printed w (snd (cycle_try e self w))) \<longleftrightarrow> cur \<noteq> Openvpn \<and> \<not> tsu \<and> ovu)"
  using cycle_logs [OF c t v] by (auto simp add: printed_def)

lemma probe_running:
  "check_interface_connectivity e (self\<lparr>running := b\<rparr>) i w =
     check_interface_connectivity e self i w"
  by (simp add: check_interface_connectivity_def split_beta
        cong: sum.case_cong bool.case_cong option.case_cong if_cong)

lemma gcv_running: "get_current_vpn e (self\<lparr>running := b\<rparr>) w = get_current_vpn e self w"
  by (simp add: get_current_vpn_def vpn_of_listing_def split_beta
        cong: sum.case_cong bool.case_cong option.case_cong if_cong)

lemma ov_running: "switch_to_openvpn e (self\<lparr>running := b\<rparr>) w = switch_to_openvpn e self w"
  by (simp add: switch_to_openvpn_def switch_to_openvpn_try_def split_beta
        cong: sum.case_cong bool.case_cong option.case_cong if_cong)

lemma ts_running: "switch_to_tailscale e (self\<lparr>running := b\<rparr>) w = switch_to_tailscale e self w"
  by (simp add: switch_to_tailscale_def switch_to_tailscale_try_def split_beta
        cong: sum.case_cong bool.case_cong option.case_cong if_cong)

lemma failover_running:
  "failover_logic e (self\<lparr>running := b\<rparr>) cur ts ov w = failover_logic e self cur ts ov w"
  by (simp add: failover_logic_def ov_running ts_running split_beta
        cong: sum.case_cong bool.case_cong option.case_cong if_cong)

lemma cycle_running: "cycle_try e (self\<lparr>running := b\<rparr>) w = cycle_try e self w"
  by (simp add: cycle_try_def gcv_running probe_running failover_running split_beta
        cong: sum.case_cong bool.case_cong option.case_cong if_cong)

text \<open>
  Claim C5. Every cycle starts with the command \<^verbatim>\<open>ip route show table usb_vpn\<close> of
  \<^verbatim>\<open>get_current_vpn\<close>, and so does the first cycle of \<^verbatim>\<open>monitor_loop\<close> after its start. The
  cycle does not depend on the flag \<^verbatim>\<open>running\<close>, the only attribute of the monitor that
  changes after construction, nor on what earlier cycles ran or printed: from two
  worlds with the same routing state it gives the same result, the same routing state
  afterwards, the same commands and the same log lines. What the cycle does after its
  three reads is the failover logic applied to the value \<^verbatim>\<open>get_current_vpn\<close> has just
  returned and to the two probe results. Both switch functions print their line
  \<^verbatim>\<open>Switching USB routing to ...\<close> first whenever they are called; in a cycle the
  Tailscale line is printed exactly when the value read is not Tailscale and Tailscale
  is up, and the OpenVPN line exactly when the value read is not OpenVPN, Tailscale is
  down and OpenVPN is up. So a switch is only ever called towards a backend other than
  the one just read.
\<close>

theorem cycle_decides_on_fresh_reading:
  "(\<exists>cs. issued w (snd (cycle_try e self w)) = IpRouteShowTable # cs) \<and>
   (\<exists>cs. issued w (snd (snd (monitor_loop self (ev # evs) w))) = IpRouteShowTable # cs) \<and>
   cycle_try e (self\<lparr>running := b\<rparr>) w = cycle_try e self w \<and>
   (rstate w = rstate w2 \<longrightarrow>
      fst (cycle_try e self w) = fst (cycle_try e self w2) \<and>
      rstate (snd (cycle_try e self w)) = rstate (snd (cycle_try e self w2)) \<and>
      issued w (snd (cycle_try e self w)) = issued w2 (snd (cycle_try e self w2)) \<and>
      printed w (snd (cycle_try e self w)) = printed w2 (snd (cycle_try e self w2))) \<and>
   (fst (get_current_vpn e self w) = Inr cur \<and>
    fst (check_interface_connectivity e self (tailscale_interface self) w) = Inr tsu \<and>
    fst (check_interface_connectivity e self (openvpn_interface self) w) = Inr ovu \<longrightarrow>
      snd (cycle_try e self w) =
        snd (failover_logic e self cur tsu ovu
               (snd (check_interface_connectivity e self (openvpn_interface self)
                  (snd (check_interface_connectivity e self (tailscale_interface self)
                     (snd (get_current_vpn e self w))))))) \<and>
      ((Info, ''Switching USB routing to Tailscale...'')
         \<in> set (printed w (snd (cycle_try e self w))) \<longleftrightarrow> cur \<noteq> Tailscale \<and> tsu) \<and>
      ((Info, ''Switching USB routing to OpenVPN...'')
         \<in> set (printed w (snd (cycle_try e self w))) \<longleftrightarrow> cur \<noteq> Openvpn \<and> \<not> tsu \<and> ovu))"
proof -
  have a: "\<exists>cs. issued w (snd (cycle_try e self w)) = IpRouteShowTable # cs"
    using cycle_journal [of e self w] by (auto simp add: issued_def)
  have b: "\<exists>cs. issued w (snd (snd (monitor_loop self (ev # evs) w))) = IpRouteShowTable # cs"
    using monitor_loop_journal [of self ev evs w] by (auto simp add: issued_def)
  show ?thesis
    using a b cycle_running [where e = e and self = self and b = b and w = w]
      cycle_history [where w = w and ?w2.0 = w2 and e = e and self = self]
      cycle_try_world [where e = e and self = self and w = w and cur = cur and tsu = tsu
        and ovu = ovu]
      cycle_printed [where e = e and self = self and w = w and cur = cur and tsu = tsu
        and ovu = ovu]
    by blast
qed

theorem cycle_decides_on_fresh_reading_witness:
  "(Info, ''Switching USB routing to Tailscale...'')
     \<in> set (printed on_openvpn (snd (cycle_try env_both_up the_monitor on_openvpn))) \<and>
   (Info, ''Switching USB routing to OpenVPN...'')
     \<notin> set (printed on_openvpn (snd (cycle_try env_both_up the_monitor on_openvpn))) \<and>
   (Info, ''Switching USB routing to Tailscale...'')
     \<notin> set (printed on_tailscale (snd (cycle_try env_both_up the_monitor on_tailscale))) \<and>
   (Info, ''Switching USB routing to OpenVPN...'')
     \<in> set (printed on_tailscale (snd (cycle_try env_no_tailscale0 the_monitor on_tailscale))) \<and>
   fst (cycle_try env_both_down the_monitor
          (log_with_timestamp Info ''VPN failover monitor started'' on_tailscale)) =
     fst (cycle_try env_both_down the_monitor on_tailscale) \<and>
   issued (log_with_timestamp Info ''VPN failover monitor started'' on_tailscale)
     (snd (cycle_try env_both_down the_monitor
             (log_with_timestamp Info ''VPN failover monitor started'' on_tailscale))) =
     issued on_tailscale (snd (cycle_try env_both_down the_monitor on_tailscale))"
proof -
  have m: "tailscale_interface the_monitor = ''tailscale0''"
    "openvpn_interface the_monitor = ''tun0''"
    by (simp_all add: the_monitor_def VPNMonitor_init_def)
  have g1: "fst (get_current_vpn env_both_up the_monitor on_openvpn) = Inr Openvpn"
    by (simp add: get_current_vpn_table env_both_up_def on_openvpn_def
          vpn_of_listing_def render_table_def render_route_def newline_def m)
  have g2: "fst (get_current_vpn env_both_up the_monitor on_tailscale) = Inr Tailscale"
    by (simp add: get_current_vpn_table env_both_up_def on_tailscale_def
          vpn_of_listing_def render_table_def render_route_def newline_def m)
  have g3: "fst (get_current_vpn env_no_tailscale0 the_monitor on_tailscale) = Inr Tailscale"
    by (simp add: get_current_vpn_table env_no_tailscale0_def env_both_up_def on_tailscale_def
          vpn_of_listing_def render_table_def render_route_def newline_def m)
  have p1: "fst (check_interface_connectivity env_both_up the_monitor
                   (tailscale_interface the_monitor) w) = Inr True"
    "fst (check_interface_connectivity env_both_up the_monitor
            (openvpn_interface the_monitor) w) = Inr True" for w
    by (simp_all add: probe_char env_both_up_def)
  have p3: "fst (check_interface_connectivity env_no_tailscale0 the_monitor
                   (tailscale_interface the_monitor) w) = Inr False"
    "fst (check_interface_connectivity env_no_tailscale0 the_monitor
            (openvpn_interface the_monitor) w) = Inr True" for w
    by (simp_all add: probe_char env_no_tailscale0_def env_both_up_def m)
  have r: "rstate (log_with_timestamp Info ''VPN failover monitor started'' on_tailscale) =
             rstate on_tailscale"
    by (simp add: log_rstate)
  have e1: "(Info, ''Switching USB routing to Tailscale...'')
              \<in> set (printed on_openvpn (snd (cycle_try env_both_up the_monitor on_openvpn))) \<and>
            (Info, ''Switching USB routing to OpenVPN...'')
              \<notin> set (printed on_openvpn (snd (cycle_try env_both_up the_monitor on_openvpn)))"
    using g1 p1 [of on_openvpn]
      cycle_decides_on_fresh_reading [where e = env_both_up and self = the_monitor
        and w = on_openvpn and cur = Openvpn and tsu = True and ovu = True]
    by blast
  have e2: "(Info, ''Switching USB routing to Tailscale...'')
              \<notin> set (printed on_tailscale (snd (cycle_try env_both_up the_monitor on_tailscale)))"
    using g2 p1 [of on_tailscale]
      cycle_decides_on_fresh_reading [where e = env_both_up and self = the_monitor
        and w = on_tailscale and cur = Tailscale and tsu = True and ovu = True]
    by blast
  have e3: "(Info, ''Switching USB routing to OpenVPN...'')
              \<in> set (printed on_tailscale
                        (snd (cycle_try env_no_tailscale0 the_monitor on_tailscale)))"
    using g3 p3 [of on_tailscale]
      cycle_decides_on_fresh_reading [where e = env_no_tailscale0 and self = the_monitor
        and w = on_tailscale and cur = Tailscale and tsu = False and ovu = True]
    by blast
  have e4: "fst (cycle_try env_both_down the_monitor
                   (log_with_timestamp Info ''VPN failover monitor started'' on_tailscale)) =
              fst (cycle_try env_both_down the_monitor on_tailscale) \<and>
            issued (log_with_timestamp Info ''VPN failover monitor started'' on_tailscale)
              (snd (cycle_try env_both_down the_monitor
                      (log_with_timestamp Info ''VPN failover monitor started'' on_tailscale))) =
              issued on_tailscale (snd (cycle_try env_both_down the_monitor on_tailscale))"
    using r
      cycle_decides_on_fresh_reading [where e = env_both_down and self = the_monitor
        and w = "log_with_timestamp Info ''VPN failover monitor started'' on_tailscale"
        and ?w2.0 = on_tailscale]
    by blast
  show ?thesis
    using e1 e2 e3 e4 by blast
qed

end
